theory Spec2Isabelle
  imports Complex_Main "HOL-Library.Multiset"
begin

section \<open>JavaScript primitives used by the pages\<close>

text \<open>
  Strings are lists of characters. A row delivered by \<^verbatim>\<open>d3.csv\<close> is an object with
  one string property per header column, so a row of a file whose header carries the
  recognised columns is a record of strings.
\<close>

record row =
  Theme :: string
  Year :: string
  Title :: string
  Description :: string

text \<open>
  Three things are the host's and are taken as parameters: \<^verbatim>\<open>parseInt\<close>, whose result is
  an integer or \<^verbatim>\<open>NaN\<close> (\<open>None\<close>); \<^verbatim>\<open>String.prototype.localeCompare\<close>, whose result
  depends on the locale of the browser; and the order in which \<^verbatim>\<open>Array.prototype.sort\<close>
  leaves the rows when the comparator is not a consistent one (see \<open>js_sort\<close> below).
  Numbers read from the file are taken as exact integers, which they are below \<open>2^53\<close>.
\<close>

record host =
  parseInt :: "string \<Rightarrow> int option"
  localeCompare :: "string \<Rightarrow> string \<Rightarrow> int"
  sortOrder :: "(row \<Rightarrow> row \<Rightarrow> int option) \<Rightarrow> row list \<Rightarrow> nat list"

text \<open>\<^verbatim>\<open>xs.indexOf(x)\<close>: the first position of \<open>x\<close>, or \<open>-1\<close>.\<close>

fun indexOf_from :: "'a list \<Rightarrow> 'a \<Rightarrow> int \<Rightarrow> int" where
  "indexOf_from [] x i = - 1"
| "indexOf_from (y # ys) x i = (if y = x then i else indexOf_from ys x (i + 1))"

definition indexOf :: "'a list \<Rightarrow> 'a \<Rightarrow> int" where
  "indexOf xs x = indexOf_from xs x 0"

text \<open>
  \<^verbatim>\<open>[...new Set(xs)]\<close>: the values are added one by one, a value already present is
  skipped, and the set is read back in insertion order.
\<close>

fun set_add_all :: "'a list \<Rightarrow> 'a list \<Rightarrow> 'a list" where
  "set_add_all seen [] = seen"
| "set_add_all seen (x # xs) =
     (if x \<in> set seen then set_add_all seen xs else set_add_all (seen @ [x]) xs)"

definition unique :: "'a list \<Rightarrow> 'a list" where
  "unique xs = set_add_all [] xs"

text \<open>
  \<^verbatim>\<open>s.split(sep)\<close> for a one-character separator: every occurrence of the separator
  ends a piece, and the text after the last one is a piece too (so there is always at
  least one piece).
\<close>

fun split_from :: "char \<Rightarrow> string \<Rightarrow> string \<Rightarrow> string list" where
  "split_from sep cur [] = [cur]"
| "split_from sep cur (c # cs) =
     (if c = sep then cur # split_from sep [] cs else split_from sep (cur @ [c]) cs)"

definition str_split :: "char \<Rightarrow> string \<Rightarrow> string list" where
  "str_split sep s = split_from sep [] s"

text \<open>
  \<^verbatim>\<open>s.trim()\<close> removes white space and line terminators at both ends; of those, the
  ones that are single 8-bit characters are listed here.
\<close>

definition isWhiteSpace :: "char \<Rightarrow> bool" where
  "isWhiteSpace c =
     (c \<in> set [CHR 0x09, CHR 0x0A, CHR 0x0B, CHR 0x0C, CHR 0x0D, CHR 0x20, CHR 0xA0])"

definition trim :: "string \<Rightarrow> string" where
  "trim s = rev (dropWhile isWhiteSpace (rev (dropWhile isWhiteSpace s)))"

text \<open>
  \<^verbatim>\<open>xs.sort(cmp)\<close>. The comparator's result orders two elements by its sign: \<open>a <\<^sub>C\<^sub>F b\<close>
  when \<open>cmp(a, b) < 0\<close>, \<open>a =\<^sub>C\<^sub>F b\<close> when it is \<open>0\<close>, \<open>a >\<^sub>C\<^sub>F b\<close> when it is positive.
\<close>

definition cf_less :: "('a \<Rightarrow> 'a \<Rightarrow> int option) \<Rightarrow> 'a \<Rightarrow> 'a \<Rightarrow> bool" where
  "cf_less cmp a b = (case cmp a b of Some v \<Rightarrow> v < 0 | None \<Rightarrow> False)"

definition cf_equal :: "('a \<Rightarrow> 'a \<Rightarrow> int option) \<Rightarrow> 'a \<Rightarrow> 'a \<Rightarrow> bool" where
  "cf_equal cmp a b = (case cmp a b of Some v \<Rightarrow> v = 0 | None \<Rightarrow> False)"

definition cf_greater :: "('a \<Rightarrow> 'a \<Rightarrow> int option) \<Rightarrow> 'a \<Rightarrow> 'a \<Rightarrow> bool" where
  "cf_greater cmp a b = (case cmp a b of Some v \<Rightarrow> 0 < v | None \<Rightarrow> False)"

text \<open>
  A comparator is a consistent comparison function for the elements of an array when it
  never yields \<^verbatim>\<open>NaN\<close> on them, \<open>=\<^sub>C\<^sub>F\<close> is reflexive, symmetric and transitive, and
  \<open><\<^sub>C\<^sub>F\<close> and \<open>>\<^sub>C\<^sub>F\<close> are transitive (ECMAScript, Array.prototype.sort).
\<close>

definition consistent_on :: "('a \<Rightarrow> 'a \<Rightarrow> int option) \<Rightarrow> 'a list \<Rightarrow> bool" where
  "consistent_on cmp xs =
     (\<forall>a \<in> set xs. \<forall>b \<in> set xs. \<forall>c \<in> set xs.
        cmp a b \<noteq> None
      \<and> cf_equal cmp a a
      \<and> (cf_equal cmp a b \<longrightarrow> cf_equal cmp b a)
      \<and> (cf_equal cmp a b \<and> cf_equal cmp b c \<longrightarrow> cf_equal cmp a c)
      \<and> (cf_less cmp a b \<and> cf_less cmp b c \<longrightarrow> cf_less cmp a c)
      \<and> (cf_greater cmp a b \<and> cf_greater cmp b c \<longrightarrow> cf_greater cmp a c))"

text \<open>
  The stable sort: elements are inserted from the right, an element moving behind a
  later one only when the comparator is positive.
\<close>

fun insert_sorted :: "('a \<Rightarrow> 'a \<Rightarrow> int option) \<Rightarrow> 'a \<Rightarrow> 'a list \<Rightarrow> 'a list" where
  "insert_sorted cmp x [] = [x]"
| "insert_sorted cmp x (y # ys) =
     (case cmp x y of
        Some v \<Rightarrow> if 0 < v then y # insert_sorted cmp x ys else x # y # ys
      | None \<Rightarrow> x # y # ys)"

definition stable_sort :: "('a \<Rightarrow> 'a \<Rightarrow> int option) \<Rightarrow> 'a list \<Rightarrow> 'a list" where
  "stable_sort cmp xs = foldr (insert_sorted cmp) xs []"

text \<open>
  An arrangement of the elements given by insertion positions: every list of positions
  gives a permutation of the elements, and every permutation is given by some list.
\<close>

fun insert_at :: "nat \<Rightarrow> 'a \<Rightarrow> 'a list \<Rightarrow> 'a list" where
  "insert_at n x [] = [x]"
| "insert_at 0 x (y # ys) = x # y # ys"
| "insert_at (Suc n) x (y # ys) = y # insert_at n x ys"

fun arrange :: "nat list \<Rightarrow> 'a list \<Rightarrow> 'a list" where
  "arrange ps [] = []"
| "arrange [] (x # xs) = x # arrange [] xs"
| "arrange (p # ps) (x # xs) = insert_at p x (arrange ps xs)"

text \<open>
  With a consistent comparator the sort is stable and sorted, which leaves one result,
  that of the stable sort above (lemma \<open>stable_sort_is_the_stable_sorted_arrangement\<close>).
  With any other comparator, for instance one that yields \<^verbatim>\<open>NaN\<close> on a year that does
  not parse, the order of the result is implementation-defined: the engine permutes the
  elements in a way of its own, which is the parameter \<open>order\<close>.
\<close>

definition js_sort ::
  "(('a \<Rightarrow> 'a \<Rightarrow> int option) \<Rightarrow> 'a list \<Rightarrow> nat list) \<Rightarrow> ('a \<Rightarrow> 'a \<Rightarrow> int option) \<Rightarrow> 'a list \<Rightarrow> 'a list" where
  "js_sort order cmp xs =
     (if consistent_on cmp xs then stable_sort cmp xs else arrange (order cmp xs) xs)"

section \<open>The data model\<close>

record 'n node =
  node_id :: 'n
  node_name :: string
  node_type :: string
  x_position :: 'n

record 'n link =
  source :: 'n
  target :: 'n
  link_value :: 'n
  description :: string

text \<open>Links built from event rows carry the row's payload for the tooltip.\<close>

record ('n, 'y) event_link = "'n link" +
  fullDescription :: string
  year :: 'y
  theme :: string

text \<open>Event nodes of the multi-theme page have three more properties; theme nodes lack them.\<close>

record event_fields =
  ev_year :: "int option"
  ev_title :: string
  ev_description :: string

record node4 = "int node" +
  event :: "event_fields option"

record ('nd, 'lk) dataset =
  nodes :: "'nd list"
  links :: "'lk list"

type_synonym dataset2 = "(int node, (int, string) event_link) dataset"
type_synonym link4 = "(int, int option) event_link"
type_synonym dataset4 = "(node4, link4) dataset"

section \<open>Single-theme page: \<^verbatim>\<open>transformCSVToSankey(csvData, themes, years)\<close>\<close>

definition transformCSVToSankey2 :: "row list \<Rightarrow> string list \<Rightarrow> string list \<Rightarrow> dataset2" where
  "transformCSVToSankey2 csvData themes years =
     (let nodes =
            map (\<lambda>(index, theme).
                  \<lparr>node_id = int index, node_name = theme, node_type = ''theme'', x_position = 0\<rparr>)
              (enumerate 0 themes)
            @ map (\<lambda>(index, year).
                  \<lparr>node_id = int (length themes) + int index, node_name = year,
                   node_type = ''year'', x_position = 1\<rparr>)
              (enumerate 0 years);
          links =
            map (\<lambda>row.
                  let themeIndex = indexOf themes (Theme row);
                      yearIndex = indexOf years (Year row)
                  in \<lparr>source = themeIndex, target = int (length themes) + yearIndex,
                      link_value = 1, description = Title row,
                      fullDescription = Description row, year = Year row, theme = Theme row\<rparr>)
              csvData
      in \<lparr>nodes = nodes, links = links\<rparr>)"

text \<open>The loader's two sets of distinct values, and the dataset it builds from the rows.\<close>

definition loadThemes2 :: "row list \<Rightarrow> string list" where
  "loadThemes2 csvData = unique (map Theme csvData)"

definition loadYears2 :: "row list \<Rightarrow> string list" where
  "loadYears2 csvData = unique (map Year csvData)"

definition sankeyData2 :: "row list \<Rightarrow> dataset2" where
  "sankeyData2 csvData = transformCSVToSankey2 csvData (loadThemes2 csvData) (loadYears2 csvData)"

section \<open>Multi-theme page: \<^verbatim>\<open>transformCSVToSankey(csvData, themes)\<close>\<close>

definition compareRows :: "host \<Rightarrow> row \<Rightarrow> row \<Rightarrow> int option" where
  "compareRows h a b =
     (let yearDiff =
            (case (parseInt h (Year a), parseInt h (Year b)) of
               (Some x, Some y) \<Rightarrow> Some (x - y)
             | _ \<Rightarrow> None)
      in if yearDiff \<noteq> Some 0 then yearDiff
         else Some (localeCompare h (Theme a) (Theme b)))"

text \<open>\<^verbatim>\<open>[...csvData].sort((a, b) => ...)\<close>, on the host's engine.\<close>

definition sortRows :: "host \<Rightarrow> row list \<Rightarrow> row list" where
  "sortRows h csvData = js_sort (sortOrder h) (compareRows h) csvData"

definition eventThemes :: "row \<Rightarrow> string list" where
  "eventThemes row = map trim (str_split CHR '';'' (Theme row))"

text \<open>What the transformer writes to the console, in order.\<close>

datatype console_entry =
  Log_event_themes string "string list"
| Warn_theme_not_found string "string list"
| Log_created nat nat

definition eventLink :: "host \<Rightarrow> row \<Rightarrow> int \<Rightarrow> int \<Rightarrow> string \<Rightarrow> link4" where
  "eventLink h row themeIndex eventIndex t =
     \<lparr>source = themeIndex, target = eventIndex, link_value = 1, description = Title row,
      fullDescription = Description row, year = parseInt h (Year row), theme = t\<rparr>"

text \<open>The inner \<^verbatim>\<open>eventThemes.forEach\<close>: a link is pushed, or a warning is written.\<close>

fun themes_forEach ::
  "host \<Rightarrow> string list \<Rightarrow> row \<Rightarrow> int \<Rightarrow> string list \<Rightarrow>
   link4 list \<times> console_entry list \<Rightarrow> link4 list \<times> console_entry list" where
  "themes_forEach h themes row eventIndex [] st = st"
| "themes_forEach h themes row eventIndex (t # rest) (lks, console) =
     (let themeIndex = indexOf themes t
      in themes_forEach h themes row eventIndex rest
           (if themeIndex \<noteq> - 1
            then (lks @ [eventLink h row themeIndex eventIndex t], console)
            else (lks, console @ [Warn_theme_not_found t themes])))"

text \<open>The outer \<^verbatim>\<open>sortedData.forEach((row, index) => ...)\<close>.\<close>

fun rows_forEach ::
  "host \<Rightarrow> string list \<Rightarrow> nat \<Rightarrow> row list \<Rightarrow>
   link4 list \<times> console_entry list \<Rightarrow> link4 list \<times> console_entry list" where
  "rows_forEach h themes index [] st = st"
| "rows_forEach h themes index (row # rest) (lks, console) =
     (let eventIndex = int (length themes) + int index;
          evThemes = eventThemes row
      in rows_forEach h themes (Suc index) rest
           (themes_forEach h themes row eventIndex evThemes
              (lks, console @ [Log_event_themes (Title row) evThemes])))"

definition eventNode :: "host \<Rightarrow> string list \<Rightarrow> nat \<times> row \<Rightarrow> node4" where
  "eventNode h themes = (\<lambda>(index, row).
     \<lparr>node_id = int (length themes) + int index,
      node_name = Year row @ '' - '' @ Title row,
      node_type = ''event'', x_position = 1,
      event = Some \<lparr>ev_year = parseInt h (Year row), ev_title = Title row,
                    ev_description = Description row\<rparr>\<rparr>)"

definition themeNode :: "nat \<times> string \<Rightarrow> node4" where
  "themeNode = (\<lambda>(index, t).
     \<lparr>node_id = int index, node_name = t, node_type = ''theme'', x_position = 0,
      event = None\<rparr>)"

definition transformCSVToSankey4 ::
  "host \<Rightarrow> row list \<Rightarrow> string list \<Rightarrow> dataset4 \<times> console_entry list" where
  "transformCSVToSankey4 h csvData themes =
     (let sortedData = sortRows h csvData;
          nodes = map themeNode (enumerate 0 themes)
                  @ map (eventNode h themes) (enumerate 0 sortedData);
          (lks, console) = rows_forEach h themes 0 sortedData ([], [])
      in (\<lparr>nodes = nodes, links = lks\<rparr>,
          console @ [Log_created (length lks) (length sortedData)]))"

text \<open>The loader's theme list: every row's field split and trimmed, duplicates dropped.\<close>

definition loadThemes4 :: "row list \<Rightarrow> string list" where
  "loadThemes4 csvData =
     (let allThemes = map Theme csvData
      in unique (concat (map (\<lambda>themeString. map trim (str_split CHR '';'' themeString)) allThemes)))"

definition sankeyData4 :: "host \<Rightarrow> row list \<Rightarrow> dataset4 \<times> console_entry list" where
  "sankeyData4 h csvData = transformCSVToSankey4 h csvData (loadThemes4 csvData)"

text \<open>The warnings among the console lines.\<close>

fun is_warning :: "console_entry \<Rightarrow> bool" where
  "is_warning (Warn_theme_not_found t ths) = True"
| "is_warning (Log_event_themes t ths) = False"
| "is_warning (Log_created n m) = False"

text \<open>
  The links and the warnings one row contributes, in closed form (used to describe the two
  loops of the transformer).
\<close>

definition rowLinks :: "host \<Rightarrow> string list \<Rightarrow> int \<Rightarrow> row \<Rightarrow> link4 list" where
  "rowLinks h themes eventIndex r =
     map (\<lambda>t. eventLink h r (indexOf themes t) eventIndex t)
       (filter (\<lambda>t. t \<in> set themes) (eventThemes r))"

definition rowWarnings :: "string list \<Rightarrow> row \<Rightarrow> console_entry list" where
  "rowWarnings themes r =
     map (\<lambda>t. Warn_theme_not_found t themes) (filter (\<lambda>t. t \<notin> set themes) (eventThemes r))"

section \<open>Sample inputs\<close>

text \<open>
  A host for the worked examples: \<^verbatim>\<open>parseInt\<close> reading an optional sign and decimal
  digits after leading white space (the hexadecimal prefix is not read), a comparison by
  character code, and an engine that leaves the rows in place when the comparator is not
  consistent (one of the orders an engine may give; the rows of the examples below are
  rows on which the comparator is consistent).
\<close>

definition isDigit :: "char \<Rightarrow> bool" where
  "isDigit c = (48 \<le> (of_char c :: nat) \<and> (of_char c :: nat) \<le> 57)"

fun parse_digits :: "string \<Rightarrow> nat option \<Rightarrow> nat option" where
  "parse_digits [] acc = acc"
| "parse_digits (c # cs) acc =
     (if isDigit c
      then parse_digits cs (Some (10 * (case acc of None \<Rightarrow> 0 | Some a \<Rightarrow> a) + (of_char c - 48)))
      else acc)"

definition parseIntDecimal :: "string \<Rightarrow> int option" where
  "parseIntDecimal s =
     (case dropWhile isWhiteSpace s of
        [] \<Rightarrow> None
      | c # cs \<Rightarrow>
          if c = CHR ''-'' then map_option (\<lambda>n. - int n) (parse_digits cs None)
          else if c = CHR ''+'' then map_option int (parse_digits cs None)
          else map_option int (parse_digits (c # cs) None))"

fun codeUnitCompare :: "string \<Rightarrow> string \<Rightarrow> int" where
  "codeUnitCompare [] [] = 0"
| "codeUnitCompare [] (y # ys) = - 1"
| "codeUnitCompare (x # xs) [] = 1"
| "codeUnitCompare (x # xs) (y # ys) =
     (if (of_char x :: nat) < of_char y then - 1
      else if (of_char y :: nat) < of_char x then 1
      else codeUnitCompare xs ys)"

definition exampleHost :: host where
  "exampleHost = \<lparr>parseInt = parseIntDecimal, localeCompare = codeUnitCompare,
                   sortOrder = (\<lambda>cmp rows. [])\<rparr>"

definition rowsA :: "row list" where
  "rowsA = [\<lparr>Theme = ''Colonialism'', Year = ''1900s'', Title = ''a'', Description = ''''\<rparr>,
            \<lparr>Theme = ''Colonialism'', Year = ''1910s'', Title = ''b'', Description = ''''\<rparr>]"

definition rowB1 :: row where
  "rowB1 = \<lparr>Theme = ''War; Trade'', Year = ''1910'', Title = ''b'', Description = ''d2''\<rparr>"

definition rowB2 :: row where
  "rowB2 = \<lparr>Theme = ''Trade;X '', Year = ''1900'', Title = ''a'', Description = ''d1''\<rparr>"

definition rowsB :: "row list" where
  "rowsB = [rowB1, rowB2]"


section \<open>Aggregate page: loader, \<^verbatim>\<open>parseCSVData\<close>, \<^verbatim>\<open>transformData\<close> and the fallback\<close>

text \<open>A row of the aggregate page's file: node lines and link lines share one header.\<close>

record csv_row =
  col_type :: string
  col_id :: string
  col_name :: string
  col_x_position :: string
  col_source :: string
  col_target :: string
  col_value :: string
  col_description :: string

type_synonym dataset0 = "(int option node, int option link) dataset"

definition parseCSVData :: "csv_row list \<Rightarrow> csv_row list \<times> csv_row list" where
  "parseCSVData csvData =
     (let nodes = filter (\<lambda>row. col_type row = ''node'') csvData;
          links = filter (\<lambda>row. col_type row = ''link'') csvData
      in (nodes, links))"

definition transformData :: "host \<Rightarrow> csv_row list \<Rightarrow> csv_row list \<Rightarrow> dataset0" where
  "transformData h nodeRows linkRows =
     \<lparr>nodes = map (\<lambda>node.
                 \<lparr>node_id = parseInt h (col_id node), node_name = col_name node,
                  node_type = (if col_x_position node = ''0'' then ''theme'' else ''decade''),
                  x_position = parseInt h (col_x_position node)\<rparr>) nodeRows,
      links = map (\<lambda>link.
                 \<lparr>source = parseInt h (col_source link), target = parseInt h (col_target link),
                  link_value = parseInt h (col_value link),
                  description = (if col_description link \<noteq> [] then col_description link else [])\<rparr>)
               linkRows\<rparr>"

definition fallbackData :: dataset0 where
  "fallbackData =
     \<lparr>nodes =
        [\<lparr>node_id = Some 0, node_name = ''Industrial Revolution'', node_type = ''theme'', x_position = Some 0\<rparr>,
         \<lparr>node_id = Some 1, node_name = ''World Wars'', node_type = ''theme'', x_position = Some 0\<rparr>,
         \<lparr>node_id = Some 2, node_name = ''Colonialism'', node_type = ''theme'', x_position = Some 0\<rparr>,
         \<lparr>node_id = Some 3, node_name = ''Economic Crisis'', node_type = ''theme'', x_position = Some 0\<rparr>,
         \<lparr>node_id = Some 4, node_name = ''1900-1910'', node_type = ''decade'', x_position = Some 1\<rparr>,
         \<lparr>node_id = Some 5, node_name = ''1910-1920'', node_type = ''decade'', x_position = Some 1\<rparr>,
         \<lparr>node_id = Some 6, node_name = ''1920-1930'', node_type = ''decade'', x_position = Some 1\<rparr>,
         \<lparr>node_id = Some 7, node_name = ''1930-1940'', node_type = ''decade'', x_position = Some 1\<rparr>,
         \<lparr>node_id = Some 8, node_name = ''1940-1950'', node_type = ''decade'', x_position = Some 1\<rparr>],
      links =
        [\<lparr>source = Some 0, target = Some 4, link_value = Some 25, description = ''Industrial Revolution to 1900s''\<rparr>,
         \<lparr>source = Some 0, target = Some 5, link_value = Some 20, description = ''Industrial Revolution to 1910s''\<rparr>,
         \<lparr>source = Some 0, target = Some 6, link_value = Some 15, description = ''Industrial Revolution to 1920s''\<rparr>,
         \<lparr>source = Some 1, target = Some 5, link_value = Some 30, description = ''World Wars to 1910s''\<rparr>,
         \<lparr>source = Some 1, target = Some 7, link_value = Some 35, description = ''World Wars to 1930s''\<rparr>,
         \<lparr>source = Some 1, target = Some 8, link_value = Some 40, description = ''World Wars to 1940s''\<rparr>,
         \<lparr>source = Some 2, target = Some 4, link_value = Some 20, description = ''Colonialism to 1900s''\<rparr>,
         \<lparr>source = Some 2, target = Some 5, link_value = Some 18, description = ''Colonialism to 1910s''\<rparr>,
         \<lparr>source = Some 2, target = Some 6, link_value = Some 15, description = ''Colonialism to 1920s''\<rparr>,
         \<lparr>source = Some 2, target = Some 7, link_value = Some 12, description = ''Colonialism to 1930s''\<rparr>,
         \<lparr>source = Some 2, target = Some 8, link_value = Some 8, description = ''Colonialism to 1940s''\<rparr>,
         \<lparr>source = Some 3, target = Some 6, link_value = Some 25, description = ''Economic Crisis to 1920s''\<rparr>,
         \<lparr>source = Some 3, target = Some 7, link_value = Some 45, description = ''Economic Crisis to 1930s''\<rparr>,
         \<lparr>source = Some 3, target = Some 8, link_value = Some 20, description = ''Economic Crisis to 1940s''\<rparr>]\<rparr>"

text \<open>
  The reactive state of a page: the loading flag, the error message (\<open>None\<close> for
  \<^verbatim>\<open>null\<close>), the current dataset, whether the chart container is attached, and the
  dataset the container shows.
\<close>

record 'd page =
  loading :: bool
  error :: "string option"
  currentData :: "'d option"
  chartContainer :: bool
  drawn :: "'d option"

text \<open>
  \<^verbatim>\<open>createSankeyDiagram(data)\<close> returns at once without data or without a container.
  Otherwise it clears the container and lays the dataset out. The layout of d3-sankey
  throws on some datasets (a link end that is no node, a circular link); on which, and
  with what message, is the library's, the parameter \<open>layoutError\<close>. When the layout
  throws, the exception leaves \<^verbatim>\<open>createSankeyDiagram\<close> with the container cleared;
  when it returns, the dataset is drawn.
\<close>

definition createSankeyDiagram ::
  "('d \<Rightarrow> string option) \<Rightarrow> 'd option \<Rightarrow> ('d, 'x) page_scheme \<Rightarrow>
   string \<times> ('d, 'x) page_scheme + ('d, 'x) page_scheme" where
  "createSankeyDiagram layoutError data st =
     (case data of
        None \<Rightarrow> Inr st
      | Some d \<Rightarrow>
          if \<not> chartContainer st then Inr st
          else
            (let st1 = st\<lparr>drawn := None\<rparr>
             in case layoutError d of
                  Some message \<Rightarrow> Inl (message, st1)
                | None \<Rightarrow> Inr (st1\<lparr>drawn := Some d\<rparr>)))"

text \<open>
  What \<^verbatim>\<open>await d3.csv(path)\<close> gives: a rejection with its message (the file cannot be
  retrieved or read), or the rows. The rows are those of a file whose header names the
  columns the page reads; every row then has every column, as a string, empty where the
  line is short.
\<close>

datatype 'r fetched = Rejected string | Resolved "'r list"

definition useFallbackData ::
  "(dataset0 \<Rightarrow> string option) \<Rightarrow> dataset0 page \<Rightarrow> string \<times> dataset0 page + dataset0 page" where
  "useFallbackData layoutError st =
     createSankeyDiagram layoutError (Some fallbackData)
       (st\<lparr>loading := False, currentData := Some fallbackData\<rparr>)"

text \<open>
  The \<^verbatim>\<open>try\<close> block of \<^verbatim>\<open>loadData\<close> either completes with a state or throws a message
  with the state reached so far: the rejection of the fetch, the page's own
  \<^verbatim>\<open>throw\<close>, or an exception of the layout while the loaded dataset is drawn. The
  \<^verbatim>\<open>catch\<close> block records the message and falls back; an exception of the layout while
  the fallback is drawn leaves \<^verbatim>\<open>loadData\<close> (\<open>Inl\<close>).
\<close>

definition loadData_try ::
  "host \<Rightarrow> (dataset0 \<Rightarrow> string option) \<Rightarrow> csv_row fetched \<Rightarrow> dataset0 page \<Rightarrow>
   string \<times> dataset0 page + dataset0 page" where
  "loadData_try h layoutError response st0 =
     (let st1 = st0\<lparr>loading := True, error := None\<rparr>
      in case response of
           Rejected message \<Rightarrow> Inl (message, st1)
         | Resolved csvData \<Rightarrow>
             if 0 < length csvData then
               (case parseCSVData csvData of (nodeRows, linkRows) \<Rightarrow>
                  if 0 < length nodeRows \<and> 0 < length linkRows then
                    (let sankeyData = transformData h nodeRows linkRows;
                         st2 = st1\<lparr>loading := False, currentData := Some sankeyData\<rparr>
                     in createSankeyDiagram layoutError (Some sankeyData) st2)
                  else Inl (''Invalid or empty CSV data'', st1))
             else Inl (''Invalid or empty CSV data'', st1))"

definition loadData ::
  "host \<Rightarrow> (dataset0 \<Rightarrow> string option) \<Rightarrow> csv_row fetched \<Rightarrow> dataset0 page \<Rightarrow>
   string \<times> dataset0 page + dataset0 page" where
  "loadData h layoutError response st0 =
     (case loadData_try h layoutError response st0 of
        Inr st \<Rightarrow> Inr st
      | Inl (message, st) \<Rightarrow> useFallbackData layoutError (st\<lparr>error := Some message\<rparr>))"

text \<open>The single-theme and the multi-theme page also show a debug line.\<close>

datatype debug_info =
  Initializing
| Component_mounted
| Loading_sample_site_data
| CSV_loaded nat
| Found_themes_years nat nat
| Found_themes_events nat nat
| CSV_data_processed
| CSV_processed nat nat nat nat
| CSV_failed string

record 'd debug_page = "'d page" +
  debugInfo :: debug_info

definition loadData2_try ::
  "(dataset2 \<Rightarrow> string option) \<Rightarrow> row fetched \<Rightarrow> dataset2 debug_page \<Rightarrow>
   string \<times> dataset2 debug_page + dataset2 debug_page" where
  "loadData2_try layoutError response st0 =
     (let st1 = st0\<lparr>loading := True, error := None, debugInfo := Loading_sample_site_data\<rparr>
      in case response of
           Rejected message \<Rightarrow> Inl (message, st1)
         | Resolved csvData \<Rightarrow>
             (let st2 = st1\<lparr>debugInfo := CSV_loaded (length csvData)\<rparr>
              in if length csvData = 0 then Inl (''CSV data was empty'', st2)
                 else
                   (let themes = loadThemes2 csvData;
                        years = loadYears2 csvData;
                        st3 = st2\<lparr>debugInfo := Found_themes_years (length themes) (length years)\<rparr>;
                        sankeyData = transformCSVToSankey2 csvData themes years;
                        st4 = st3\<lparr>debugInfo := CSV_data_processed\<rparr>;
                        st5 = st4\<lparr>loading := False, currentData := Some sankeyData\<rparr>
                    in createSankeyDiagram layoutError (Some sankeyData) st5)))"

definition loadData2 ::
  "(dataset2 \<Rightarrow> string option) \<Rightarrow> row fetched \<Rightarrow> dataset2 debug_page \<Rightarrow> dataset2 debug_page" where
  "loadData2 layoutError response st0 =
     (case loadData2_try layoutError response st0 of
        Inr st \<Rightarrow> st
      | Inl (message, st) \<Rightarrow>
          st\<lparr>error := Some message, debugInfo := CSV_failed message, loading := False\<rparr>)"

definition loadData4_try ::
  "host \<Rightarrow> (dataset4 \<Rightarrow> string option) \<Rightarrow> row fetched \<Rightarrow> dataset4 debug_page \<Rightarrow>
   string \<times> dataset4 debug_page + dataset4 debug_page" where
  "loadData4_try h layoutError response st0 =
     (let st1 = st0\<lparr>loading := True, error := None, debugInfo := Loading_sample_site_data\<rparr>
      in case response of
           Rejected message \<Rightarrow> Inl (message, st1)
         | Resolved csvData \<Rightarrow>
             (let st2 = st1\<lparr>debugInfo := CSV_loaded (length csvData)\<rparr>
              in if length csvData = 0 then Inl (''CSV data was empty'', st2)
                 else
                   (let themes = loadThemes4 csvData;
                        st3 = st2\<lparr>debugInfo := Found_themes_events (length themes) (length csvData)\<rparr>;
                        sankeyData = fst (transformCSVToSankey4 h csvData themes);
                        st4 = st3\<lparr>debugInfo := CSV_processed (length (nodes sankeyData)) (length themes)
                                                   (length csvData) (length (links sankeyData))\<rparr>;
                        st5 = st4\<lparr>loading := False, currentData := Some sankeyData\<rparr>
                    in createSankeyDiagram layoutError (Some sankeyData) st5)))"

definition loadData4 ::
  "host \<Rightarrow> (dataset4 \<Rightarrow> string option) \<Rightarrow> row fetched \<Rightarrow> dataset4 debug_page \<Rightarrow> dataset4 debug_page" where
  "loadData4 h layoutError response st0 =
     (case loadData4_try h layoutError response st0 of
        Inr st \<Rightarrow> st
      | Inl (message, st) \<Rightarrow>
          st\<lparr>error := Some message, debugInfo := CSV_failed message, loading := False\<rparr>)"

text \<open>
  A layout for the worked examples, with the two errors of d3-sankey. Links name their
  ends by position in the node array; an end that is no position gives
  \<^verbatim>\<open>missing: \<close> and the end, and a cycle of links gives \<^verbatim>\<open>circular link\<close>.
\<close>

function show_nat :: "nat \<Rightarrow> string" where
  "show_nat n =
     (if n < 10 then [''0123456789'' ! n]
      else show_nat (n div 10) @ [''0123456789'' ! (n mod 10)])"
  by pat_completeness auto
termination
  by (relation "measure (\<lambda>n. n)") auto

definition show_number :: "int option \<Rightarrow> string" where
  "show_number e =
     (case e of
        None \<Rightarrow> ''NaN''
      | Some k \<Rightarrow> if k < 0 then ''-'' @ show_nat (nat (- k)) else show_nat (nat k))"

definition is_node_index :: "nat \<Rightarrow> int option \<Rightarrow> bool" where
  "is_node_index n e = (case e of Some k \<Rightarrow> 0 \<le> k \<and> k < int n | None \<Rightarrow> False)"

definition link_ends :: "dataset0 \<Rightarrow> int option list" where
  "link_ends ds = concat (map (\<lambda>l. [source l, target l]) (links ds))"

definition next_nodes :: "dataset0 \<Rightarrow> int option list \<Rightarrow> int option list" where
  "next_nodes ds current = remdups (map target (filter (\<lambda>l. source l \<in> set current) (links ds)))"

definition circular :: "dataset0 \<Rightarrow> bool" where
  "circular ds =
     ((next_nodes ds ^^ length (nodes ds)) (map (\<lambda>i. Some (int i)) [0..<length (nodes ds)]) \<noteq> [])"

definition d3SankeyError :: "dataset0 \<Rightarrow> string option" where
  "d3SankeyError ds =
     (case filter (\<lambda>e. \<not> is_node_index (length (nodes ds)) e) (link_ends ds) of
        e # rest \<Rightarrow> Some (''missing: '' @ show_number e)
      | [] \<Rightarrow> if circular ds then Some ''circular link'' else None)"

text \<open>A file with one node and a link to a node \<open>9\<close> that is not there.\<close>

definition danglingRows :: "csv_row list" where
  "danglingRows =
     [\<lparr>col_type = ''node'', col_id = ''0'', col_name = ''A'', col_x_position = ''0'',
       col_source = '''', col_target = '''', col_value = '''', col_description = ''''\<rparr>,
      \<lparr>col_type = ''link'', col_id = '''', col_name = '''', col_x_position = '''',
       col_source = ''0'', col_target = ''9'', col_value = ''5'', col_description = ''''\<rparr>]"

definition unmounted_page :: "dataset0 page" where
  "unmounted_page =
     \<lparr>loading = True, error = None, currentData = None, chartContainer = False, drawn = None\<rparr>"

definition mounted_page :: "dataset0 page" where
  "mounted_page =
     \<lparr>loading = True, error = None, currentData = None, chartContainer = True, drawn = None\<rparr>"

section \<open>The drawn elements and the highlight state machine\<close>

text \<open>
  What the highlight functions read of a node and of a link after the layout: the
  node's \<^verbatim>\<open>index\<close> and left edge \<^verbatim>\<open>x0\<close>, and the link's \<^verbatim>\<open>source.index\<close>,
  \<^verbatim>\<open>target.index\<close> and \<^verbatim>\<open>width\<close>.
\<close>

record layout_node =
  nd_index :: nat
  nd_x0 :: real

record layout_link =
  lk_source_index :: nat
  lk_target_index :: nat
  lk_width :: real

record layout =
  res_nodes :: "layout_node list"
  res_links :: "layout_link list"

text \<open>
  A node object has no property named \<^verbatim>\<open>x\<close> (the transformer gives it \<^verbatim>\<open>id\<close>, \<^verbatim>\<open>name\<close>,
  \<^verbatim>\<open>type\<close> and \<^verbatim>\<open>x_position\<close>, the layout adds \<^verbatim>\<open>index\<close>, \<^verbatim>\<open>x0\<close>, \<^verbatim>\<open>x1\<close>, \<^verbatim>\<open>y0\<close>, \<^verbatim>\<open>y1\<close>
  and its link lists), so reading it yields \<^verbatim>\<open>undefined\<close>, and a comparison of
  \<^verbatim>\<open>undefined\<close> with a number is false.
\<close>

definition prop_x :: "layout_node \<Rightarrow> real option" where
  "prop_x d = None"

fun js_less :: "real option \<Rightarrow> real \<Rightarrow> bool" where
  "js_less None w = False"
| "js_less (Some v) w = (v < w)"

fun js_greater_eq :: "real option \<Rightarrow> real \<Rightarrow> bool" where
  "js_greater_eq None w = False"
| "js_greater_eq (Some v) w = (w \<le> v)"

text \<open>
  A drawn element: its datum, the presentation attributes set when it is created and
  the inline styles set later, for the three properties the pages change on hover. An
  inline style overrides the attribute; without either, the opacity is \<open>1\<close>.
\<close>

record 'd element =
  datum :: 'd
  attr_opacity :: "real option"
  attr_stroke_width :: "real option"
  attr_stroke :: "string option"
  style_opacity :: "real option"
  style_stroke_width :: "real option"
  style_stroke :: "string option"

definition shown_opacity :: "'d element \<Rightarrow> real" where
  "shown_opacity e =
     (case style_opacity e of
        Some v \<Rightarrow> v
      | None \<Rightarrow> (case attr_opacity e of Some v \<Rightarrow> v | None \<Rightarrow> 1))"

definition shown_stroke_width :: "'d element \<Rightarrow> real option" where
  "shown_stroke_width e =
     (case style_stroke_width e of Some v \<Rightarrow> Some v | None \<Rightarrow> attr_stroke_width e)"

text \<open>\<^verbatim>\<open>selection.style(...)\<close> and \<^verbatim>\<open>selection.filter(p).style(...)\<close>.\<close>

definition style_all :: "('d element \<Rightarrow> 'd element) \<Rightarrow> 'd element list \<Rightarrow> 'd element list" where
  "style_all f sel = map f sel"

definition style_filter ::
  "('d \<Rightarrow> bool) \<Rightarrow> ('d element \<Rightarrow> 'd element) \<Rightarrow> 'd element list \<Rightarrow> 'd element list" where
  "style_filter p f sel = map (\<lambda>e. if p (datum e) then f e else e) sel"

definition style_filter_indexed ::
  "('d \<Rightarrow> nat \<Rightarrow> bool) \<Rightarrow> ('d element \<Rightarrow> 'd element) \<Rightarrow> 'd element list \<Rightarrow> 'd element list" where
  "style_filter_indexed p f sel =
     map (\<lambda>(i, e). if p (datum e) i then f e else e) (enumerate 0 sel)"

definition opacity :: "real \<Rightarrow> 'd element \<Rightarrow> 'd element" where
  "opacity v e = e\<lparr>style_opacity := Some v\<rparr>"

definition stroke_width :: "('d \<Rightarrow> real) \<Rightarrow> 'd element \<Rightarrow> 'd element" where
  "stroke_width g e = e\<lparr>style_stroke_width := Some (g (datum e))\<rparr>"

definition stroke :: "string \<Rightarrow> 'd element \<Rightarrow> 'd element" where
  "stroke c e = e\<lparr>style_stroke := Some c\<rparr>"

definition new_element :: "'d \<Rightarrow> real option \<Rightarrow> real option \<Rightarrow> string option \<Rightarrow> 'd element" where
  "new_element d op sw st =
     \<lparr>datum = d, attr_opacity = op, attr_stroke_width = sw, attr_stroke = st,
      style_opacity = None, style_stroke_width = None, style_stroke = None\<rparr>"

text \<open>The colour table \<^verbatim>\<open>d3.schemeCategory10\<close>.\<close>

definition schemeCategory10 :: "string list" where
  "schemeCategory10 =
     [''#1f77b4'', ''#ff7f0e'', ''#2ca02c'', ''#d62728'', ''#9467bd'',
      ''#8c564b'', ''#e377c2'', ''#7f7f7f'', ''#bcbd22'', ''#17becf'']"

subsection \<open>Single-theme page\<close>

record scene =
  sel_links :: "layout_link element list"
  sel_nodes :: "layout_node element list"
  sel_labels :: "layout_node element list"

definition createChartElements2 :: "layout \<Rightarrow> scene" where
  "createChartElements2 result =
     \<lparr>sel_links =
        map (\<lambda>d. new_element d (Some 0.7) (Some (max 2 (lk_width d)))
                   (Some (schemeCategory10 ! (lk_source_index d mod 10))))
          (res_links result),
      sel_nodes = map (\<lambda>d. new_element d None (Some 1) (Some ''#000'')) (res_nodes result),
      sel_labels = map (\<lambda>d. new_element d None None None) (res_nodes result)\<rparr>"

definition highlightThemeFlows2 :: "nat \<Rightarrow> real \<Rightarrow> scene \<Rightarrow> scene" where
  "highlightThemeFlows2 themeIndex width sc =
     (let links1 = style_all (opacity 0.1) (sel_links sc);
          links2 = style_filter (\<lambda>link. lk_source_index link = themeIndex)
                     (stroke_width (\<lambda>d. max 3 (lk_width d + 1)) \<circ> opacity 0.9) links1;
          nodes1 = style_filter (\<lambda>node. nd_x0 node < width / 2 \<and> nd_index node \<noteq> themeIndex)
                     (opacity 0.3) (sel_nodes sc);
          nodes2 = style_filter (\<lambda>node. width / 2 \<le> nd_x0 node) (opacity 0.7) nodes1;
          labels1 = style_filter
                      (\<lambda>label. js_less (prop_x label) (width / 2) \<and> nd_index label \<noteq> themeIndex)
                      (opacity 0.3) (sel_labels sc)
      in \<lparr>sel_links = links2, sel_nodes = nodes2, sel_labels = labels1\<rparr>)"

definition highlightYearFlows2 :: "nat \<Rightarrow> real \<Rightarrow> scene \<Rightarrow> scene" where
  "highlightYearFlows2 yearIndex width sc =
     (let links1 = style_all (opacity 0.1) (sel_links sc);
          links2 = style_filter (\<lambda>link. lk_target_index link = yearIndex)
                     (stroke_width (\<lambda>d. max 3 (lk_width d + 1)) \<circ> opacity 0.9) links1;
          nodes1 = style_filter (\<lambda>node. width / 2 \<le> nd_x0 node \<and> nd_index node \<noteq> yearIndex)
                     (opacity 0.3) (sel_nodes sc);
          nodes2 = style_filter (\<lambda>node. nd_x0 node < width / 2) (opacity 0.7) nodes1;
          labels1 = style_filter
                      (\<lambda>label. js_greater_eq (prop_x label) (width / 2) \<and> nd_index label \<noteq> yearIndex)
                      (opacity 0.3) (sel_labels sc)
      in \<lparr>sel_links = links2, sel_nodes = nodes2, sel_labels = labels1\<rparr>)"

definition resetHighlighting2 :: "scene \<Rightarrow> scene" where
  "resetHighlighting2 sc =
     \<lparr>sel_links = style_all (stroke_width (\<lambda>d. max 2 (lk_width d)) \<circ> opacity 0.7) (sel_links sc),
      sel_nodes = style_all (opacity 1) (sel_nodes sc),
      sel_labels = style_all (opacity 1) (sel_labels sc)\<rparr>"

text \<open>The pointer events the nodes listen to (\<^verbatim>\<open>addHoverInteractions\<close>).\<close>

datatype hover = PointerEnter layout_node | PointerLeave

fun hover2 :: "real \<Rightarrow> scene \<Rightarrow> hover \<Rightarrow> scene" where
  "hover2 width sc (PointerEnter d) =
     (if nd_x0 d < width / 2 then highlightThemeFlows2 (nd_index d) width sc
      else highlightYearFlows2 (nd_index d) width sc)"
| "hover2 width sc PointerLeave = resetHighlighting2 sc"

subsection \<open>Aggregate page\<close>

record scene0 = scene +
  sel_flowLabels :: "layout_link element list"

definition createChartElements0 :: "layout \<Rightarrow> scene0" where
  "createChartElements0 result =
     \<lparr>sel_links =
        map (\<lambda>d. new_element d (Some 0.7) (Some (max 2 (lk_width d)))
                   (Some (schemeCategory10 ! (lk_source_index d mod 10))))
          (res_links result),
      sel_nodes = map (\<lambda>d. new_element d None (Some 1) (Some ''#000'')) (res_nodes result),
      sel_labels = map (\<lambda>d. new_element d None None None) (res_nodes result),
      sel_flowLabels = map (\<lambda>d. new_element d None None None) (res_links result)\<rparr>"

text \<open>
  The flow labels are filtered by position: the \<open>i\<close>-th label is dimmed by what
  \<^verbatim>\<open>result.links[i]\<close> says (there is one flow label per link of the result).
\<close>

definition highlightThemeFlows0 :: "nat \<Rightarrow> layout \<Rightarrow> real \<Rightarrow> scene0 \<Rightarrow> scene0" where
  "highlightThemeFlows0 themeIndex result width sc =
     (let links1 = style_all (opacity 0.1) (sel_links sc);
          links2 = style_filter (\<lambda>link. lk_source_index link = themeIndex)
                     (stroke_width (\<lambda>d. max 3 (lk_width d + 1)) \<circ> opacity 0.9) links1;
          nodes1 = style_filter (\<lambda>node. nd_x0 node < width / 2 \<and> nd_index node \<noteq> themeIndex)
                     (opacity 0.3) (sel_nodes sc);
          nodes2 = style_filter (\<lambda>node. width / 2 \<le> nd_x0 node) (opacity 0.7) nodes1;
          labels1 = style_filter
                      (\<lambda>label. js_less (prop_x label) (width / 2) \<and> nd_index label \<noteq> themeIndex)
                      (opacity 0.3) (sel_labels sc);
          flowLabels1 = style_filter_indexed
                      (\<lambda>label i. lk_source_index (res_links result ! i) \<noteq> themeIndex)
                      (opacity 0.1) (sel_flowLabels sc)
      in \<lparr>sel_links = links2, sel_nodes = nodes2, sel_labels = labels1,
          sel_flowLabels = flowLabels1\<rparr>)"

definition highlightDecadeFlows0 :: "nat \<Rightarrow> layout \<Rightarrow> real \<Rightarrow> scene0 \<Rightarrow> scene0" where
  "highlightDecadeFlows0 decadeIndex result width sc =
     (let links1 = style_all (opacity 0.1) (sel_links sc);
          links2 = style_filter (\<lambda>link. lk_target_index link = decadeIndex)
                     (stroke_width (\<lambda>d. max 3 (lk_width d + 1)) \<circ> opacity 0.9) links1;
          nodes1 = style_filter (\<lambda>node. width / 2 \<le> nd_x0 node \<and> nd_index node \<noteq> decadeIndex)
                     (opacity 0.3) (sel_nodes sc);
          nodes2 = style_filter (\<lambda>node. nd_x0 node < width / 2) (opacity 0.7) nodes1;
          labels1 = style_filter
                      (\<lambda>label. js_greater_eq (prop_x label) (width / 2) \<and> nd_index label \<noteq> decadeIndex)
                      (opacity 0.3) (sel_labels sc);
          flowLabels1 = style_filter_indexed
                      (\<lambda>label i. lk_target_index (res_links result ! i) \<noteq> decadeIndex)
                      (opacity 0.1) (sel_flowLabels sc)
      in \<lparr>sel_links = links2, sel_nodes = nodes2, sel_labels = labels1,
          sel_flowLabels = flowLabels1\<rparr>)"

definition resetHighlighting0 :: "scene0 \<Rightarrow> scene0" where
  "resetHighlighting0 sc =
     \<lparr>sel_links = style_all (stroke_width (\<lambda>d. max 2 (lk_width d)) \<circ> opacity 0.7) (sel_links sc),
      sel_nodes = style_all (opacity 1) (sel_nodes sc),
      sel_labels = style_all (opacity 1) (sel_labels sc),
      sel_flowLabels = style_all (opacity 1) (sel_flowLabels sc)\<rparr>"

fun hover0 :: "layout \<Rightarrow> real \<Rightarrow> scene0 \<Rightarrow> hover \<Rightarrow> scene0" where
  "hover0 result width sc (PointerEnter d) =
     (if nd_x0 d < width / 2 then highlightThemeFlows0 (nd_index d) result width sc
      else highlightDecadeFlows0 (nd_index d) result width sc)"
| "hover0 result width sc PointerLeave = resetHighlighting0 sc"

subsection \<open>Multi-theme page\<close>

text \<open>The constants of \<^verbatim>\<open>CHART_CONFIG\<close> and \<^verbatim>\<open>COLORS\<close> that the elements use.\<close>

definition defaultOpacity :: real where "defaultOpacity = 0.5"
definition linkOpacityHover :: real where "linkOpacityHover = 1"
definition backgroundOpacity :: real where "backgroundOpacity = 0.1"
definition nodeOpacityHighlight :: real where "nodeOpacityHighlight = 0.9"

definition COLORS_custom :: "string list" where
  "COLORS_custom = [''#8863EB'', ''#E163EB'', ''#636AEB'', ''#EB63AB'', ''#B463EB'', ''#D3B1EB'']"

definition COLORS_border :: string where "COLORS_border = ''#000''"

record scene4 =
  links4 :: "layout_link element list"
  nodes4 :: "layout_node element list"
  themeLabels :: "layout_node element list"
  yearLabels :: "layout_node element list"
  titleLabels :: "layout_node element list"

definition createChartElements4 :: "layout \<Rightarrow> real \<Rightarrow> scene4" where
  "createChartElements4 result width =
     \<lparr>links4 =
        map (\<lambda>d. new_element d (Some defaultOpacity) (Some (max 4 (lk_width d + 2)))
                   (Some (COLORS_custom ! (lk_source_index d mod length COLORS_custom))))
          (res_links result),
      nodes4 = map (\<lambda>d. new_element d None (Some 1) (Some COLORS_border)) (res_nodes result),
      themeLabels = map (\<lambda>d. new_element d None None None)
                      (filter (\<lambda>d. nd_x0 d < width / 2) (res_nodes result)),
      yearLabels = map (\<lambda>d. new_element d None None None)
                     (filter (\<lambda>d. width / 2 \<le> nd_x0 d) (res_nodes result)),
      titleLabels = map (\<lambda>d. new_element d None None None)
                      (filter (\<lambda>d. width / 2 \<le> nd_x0 d) (res_nodes result))\<rparr>"

definition highlightThemeFlows4 :: "nat \<Rightarrow> real \<Rightarrow> scene4 \<Rightarrow> scene4" where
  "highlightThemeFlows4 themeIndex width sc =
     (let links1 = style_all (opacity backgroundOpacity) (links4 sc);
          links2 = style_filter (\<lambda>link. lk_source_index link = themeIndex)
                     (stroke (COLORS_custom ! (themeIndex mod length COLORS_custom))
                      \<circ> opacity nodeOpacityHighlight) links1;
          nodes1 = style_filter (\<lambda>node. nd_x0 node < width / 2 \<and> nd_index node \<noteq> themeIndex)
                     (opacity backgroundOpacity) (nodes4 sc);
          nodes2 = style_filter (\<lambda>node. width / 2 \<le> nd_x0 node) (opacity backgroundOpacity) nodes1;
          themeLabels1 = style_filter (\<lambda>label. nd_index label \<noteq> themeIndex)
                           (opacity backgroundOpacity) (themeLabels sc)
      in sc\<lparr>links4 := links2, nodes4 := nodes2, themeLabels := themeLabels1\<rparr>)"

definition highlightEventFlows4 :: "nat \<Rightarrow> real \<Rightarrow> scene4 \<Rightarrow> scene4" where
  "highlightEventFlows4 eventIndex width sc =
     (let links1 = style_all (opacity backgroundOpacity) (links4 sc);
          links2 = style_filter (\<lambda>link. lk_target_index link = eventIndex)
                     (opacity nodeOpacityHighlight) links1;
          nodes1 = style_filter (\<lambda>node. width / 2 \<le> nd_x0 node \<and> nd_index node \<noteq> eventIndex)
                     (opacity backgroundOpacity) (nodes4 sc);
          nodes2 = style_filter (\<lambda>node. nd_x0 node < width / 2) (opacity backgroundOpacity) nodes1;
          yearLabels1 = style_filter (\<lambda>label. nd_index label \<noteq> eventIndex)
                          (opacity backgroundOpacity) (yearLabels sc);
          titleLabels1 = style_filter (\<lambda>label. nd_index label \<noteq> eventIndex)
                           (opacity backgroundOpacity) (titleLabels sc)
      in sc\<lparr>links4 := links2, nodes4 := nodes2, yearLabels := yearLabels1,
            titleLabels := titleLabels1\<rparr>)"

definition resetHighlighting4 :: "scene4 \<Rightarrow> scene4" where
  "resetHighlighting4 sc =
     \<lparr>links4 = style_all (opacity defaultOpacity) (links4 sc),
      nodes4 = style_all (opacity defaultOpacity) (nodes4 sc),
      themeLabels = style_all (opacity 1) (themeLabels sc),
      yearLabels = style_all (opacity 1) (yearLabels sc),
      titleLabels = style_all (opacity 1) (titleLabels sc)\<rparr>"

fun hover4 :: "real \<Rightarrow> scene4 \<Rightarrow> hover \<Rightarrow> scene4" where
  "hover4 width sc (PointerEnter d) =
     (if nd_x0 d < width / 2 then highlightThemeFlows4 (nd_index d) width sc
      else highlightEventFlows4 (nd_index d) width sc)"
| "hover4 width sc PointerLeave = resetHighlighting4 sc"

text \<open>A layout for the worked examples: two themes on the left, one event on the right.\<close>

definition exampleLayout :: layout where
  "exampleLayout =
     \<lparr>res_nodes = [\<lparr>nd_index = 0, nd_x0 = 0\<rparr>, \<lparr>nd_index = 1, nd_x0 = 0\<rparr>,
                   \<lparr>nd_index = 2, nd_x0 = 220\<rparr>],
      res_links = [\<lparr>lk_source_index = 0, lk_target_index = 2, lk_width = 10\<rparr>,
                   \<lparr>lk_source_index = 1, lk_target_index = 2, lk_width = 10\<rparr>]\<rparr>"

section \<open>Calls of the transformer on arrays held by the caller\<close>

text \<open>
  The arrays of the caller live in a heap and are passed by reference: a reference is a
  position in the heap, \<^verbatim>\<open>[...xs]\<close> allocates a new array with the elements of \<open>xs\<close>, and
  \<^verbatim>\<open>xs.sort(cmp)\<close> overwrites the array \<open>xs\<close> refers to.
\<close>

record heap =
  rowArrays :: "row list list"
  stringArrays :: "string list list"
  consoleOutput :: "console_entry list"

definition spread_rows :: "nat \<Rightarrow> heap \<Rightarrow> nat \<times> heap" where
  "spread_rows ref hp = (length (rowArrays hp), hp\<lparr>rowArrays := rowArrays hp @ [rowArrays hp ! ref]\<rparr>)"

definition sort_rows_in_place :: "host \<Rightarrow> nat \<Rightarrow> heap \<Rightarrow> heap" where
  "sort_rows_in_place h ref hp =
     hp\<lparr>rowArrays := (rowArrays hp)[ref := js_sort (sortOrder h) (compareRows h) (rowArrays hp ! ref)]\<rparr>"

text \<open>
  The multi-theme transformer on references: \<open>None\<close> when an argument is no array (the
  call would throw).
\<close>

definition transformCSVToSankey4_call ::
  "host \<Rightarrow> nat \<Rightarrow> nat \<Rightarrow> heap \<Rightarrow> (dataset4 \<times> heap) option" where
  "transformCSVToSankey4_call h csvData themes hp =
     (if csvData < length (rowArrays hp) \<and> themes < length (stringArrays hp) then
        (case spread_rows csvData hp of (sortedData, hp1) \<Rightarrow>
           (let hp2 = sort_rows_in_place h sortedData hp1;
                themeList = stringArrays hp2 ! themes;
                sortedRows = rowArrays hp2 ! sortedData;
                nodes = map themeNode (enumerate 0 themeList)
                        @ map (eventNode h themeList) (enumerate 0 sortedRows);
                (lks, output) = rows_forEach h themeList 0 sortedRows ([], [])
            in Some (\<lparr>nodes = nodes, links = lks\<rparr>,
                     hp2\<lparr>consoleOutput := consoleOutput hp2 @ output
                                           @ [Log_created (length lks) (length sortedRows)]\<rparr>)))
      else None)"

text \<open>The single-theme transformer reads its three arrays and writes nothing.\<close>

definition transformCSVToSankey2_call ::
  "nat \<Rightarrow> nat \<Rightarrow> nat \<Rightarrow> heap \<Rightarrow> (dataset2 \<times> heap) option" where
  "transformCSVToSankey2_call csvData themes years hp =
     (if csvData < length (rowArrays hp) \<and> themes < length (stringArrays hp)
         \<and> years < length (stringArrays hp)
      then Some (transformCSVToSankey2 (rowArrays hp ! csvData) (stringArrays hp ! themes)
                   (stringArrays hp ! years), hp)
      else None)"

definition exampleHeap :: heap where
  "exampleHeap = \<lparr>rowArrays = [rowsB, rowsA], stringArrays = [[''War'', ''Trade''], [''Colonialism''], [''1900s'', ''1910s'']],
                  consoleOutput = []\<rparr>"

section \<open>Properties of the primitives\<close>

lemma indexOf_from_absent: "x \<notin> set xs \<Longrightarrow> indexOf_from xs x i = - 1"
  by (induction xs arbitrary: i) auto

lemma indexOf_from_present:
  "x \<in> set xs \<Longrightarrow> i \<le> indexOf_from xs x i \<and> indexOf_from xs x i < i + int (length xs)"
proof (induction xs arbitrary: i)
  case Nil
  then show ?case by simp
next
  case (Cons y ys)
  show ?case
  proof (cases "y = x")
    case True
    then show ?thesis by simp
  next
    case False
    with Cons.prems have "x \<in> set ys" by simp
    from Cons.IH [OF this, of "i + 1"] False show ?thesis by simp
  qed
qed

lemma indexOf_absent: "x \<notin> set xs \<Longrightarrow> indexOf xs x = - 1"
  by (simp add: indexOf_def indexOf_from_absent)

lemma indexOf_present: "x \<in> set xs \<Longrightarrow> 0 \<le> indexOf xs x \<and> indexOf xs x < int (length xs)"
  using indexOf_from_present [of x xs 0] by (simp add: indexOf_def)

lemma indexOf_found_iff: "indexOf xs x \<noteq> - 1 \<longleftrightarrow> x \<in> set xs"
  using indexOf_absent [of x xs] indexOf_present [of x xs] by auto

lemma indexOf_from_nth:
  "x \<in> set xs \<Longrightarrow> xs ! nat (indexOf_from xs x i - i) = x"
proof (induction xs arbitrary: i)
  case Nil
  then show ?case by simp
next
  case (Cons y ys)
  show ?case
  proof (cases "y = x")
    case True
    then show ?thesis by simp
  next
    case False
    with Cons.prems have mem: "x \<in> set ys" by simp
    from indexOf_from_present [OF mem, of "i + 1"]
    have "nat (indexOf_from ys x (i + 1) - i) = Suc (nat (indexOf_from ys x (i + 1) - (i + 1)))"
      by linarith
    with Cons.IH [OF mem, of "i + 1"] False show ?thesis by simp
  qed
qed

lemma indexOf_nth: "x \<in> set xs \<Longrightarrow> xs ! nat (indexOf xs x) = x"
  using indexOf_from_nth [of x xs 0] by (simp add: indexOf_def)

lemma set_add_all_set: "set (set_add_all seen xs) = set seen \<union> set xs"
  by (induction xs arbitrary: seen) auto


lemma set_unique: "set (unique xs) = set xs"
  by (simp add: unique_def set_add_all_set)



lemma split_from_nonempty: "split_from sep cur s \<noteq> []"
  by (induction s arbitrary: cur) auto

lemma str_split_nonempty: "str_split sep s \<noteq> []"
  by (simp add: str_split_def split_from_nonempty)

lemma eventThemes_nonempty: "eventThemes r \<noteq> []"
  by (simp add: eventThemes_def str_split_nonempty)

section \<open>Properties of the sort\<close>

lemma mset_insert_sorted: "mset (insert_sorted cmp x ys) = add_mset x (mset ys)"
  by (induction ys) (auto split: option.splits)

lemma mset_stable_sort: "mset (stable_sort cmp xs) = mset xs"
  by (induction xs) (simp_all add: stable_sort_def mset_insert_sorted)

lemma mset_insert_at: "mset (insert_at n x ys) = add_mset x (mset ys)"
  by (induction n x ys rule: insert_at.induct) simp_all

lemma mset_arrange: "mset (arrange ps xs) = mset xs"
  by (induction ps xs rule: arrange.induct) (simp_all add: mset_insert_at)

lemma mset_js_sort: "mset (js_sort order cmp xs) = mset xs"
  by (simp add: js_sort_def mset_stable_sort mset_arrange)

lemma length_js_sort: "length (js_sort order cmp xs) = length xs"
  using mset_js_sort [of order cmp xs] by (metis size_mset)

lemma set_js_sort: "set (js_sort order cmp xs) = set xs"
  using mset_js_sort [of order cmp xs] by (metis set_mset_mset)

lemma sum_js_sort: "sum_list (map f (js_sort order cmp xs)) = (sum_list (map f xs) :: nat)"
proof -
  have "mset (map f (js_sort order cmp xs)) = mset (map f xs)"
    by (simp add: mset_js_sort)
  then show ?thesis by (metis sum_mset_sum_list)
qed

lemma insert_at_middle: "insert_at (length as) x (as @ bs) = as @ x # bs"
  by (induction as) (auto, (cases bs; simp))

lemma arrange_reaches_every_permutation:
  "mset ys = mset xs \<Longrightarrow> \<exists>ps. arrange ps xs = ys"
proof (induction xs arbitrary: ys)
  case Nil
  then show ?case by simp
next
  case (Cons x xs)
  then have "x \<in> set ys" by (metis list.set_intros(1) set_mset_mset)
  then obtain as bs where ys: "ys = as @ x # bs" by (auto simp: in_set_conv_decomp)
  with Cons.prems have "mset (as @ bs) = mset xs" by simp
  from Cons.IH [OF this] obtain ps where "arrange ps xs = as @ bs" by blast
  then have "arrange (length as # ps) (x # xs) = ys"
    by (simp add: ys insert_at_middle)
  then show ?case by blast
qed

lemma consistent_onD:
  assumes "consistent_on cmp xs" and "a \<in> set xs" and "b \<in> set xs" and "c \<in> set xs"
  shows "cmp a b \<noteq> None" and "cf_equal cmp a a"
    and "cf_equal cmp a b \<Longrightarrow> cf_equal cmp b a"
    and "cf_equal cmp a b \<Longrightarrow> cf_equal cmp b c \<Longrightarrow> cf_equal cmp a c"
    and "cf_less cmp a b \<Longrightarrow> cf_less cmp b c \<Longrightarrow> cf_less cmp a c"
    and "cf_greater cmp a b \<Longrightarrow> cf_greater cmp b c \<Longrightarrow> cf_greater cmp a c"
proof -
  from assms have all: "cmp a b \<noteq> None
      \<and> cf_equal cmp a a
      \<and> (cf_equal cmp a b \<longrightarrow> cf_equal cmp b a)
      \<and> (cf_equal cmp a b \<and> cf_equal cmp b c \<longrightarrow> cf_equal cmp a c)
      \<and> (cf_less cmp a b \<and> cf_less cmp b c \<longrightarrow> cf_less cmp a c)
      \<and> (cf_greater cmp a b \<and> cf_greater cmp b c \<longrightarrow> cf_greater cmp a c)"
    unfolding consistent_on_def by blast
  from all show "cmp a b \<noteq> None" by blast
  from all show "cf_equal cmp a a" by blast
  from all show "cf_equal cmp a b \<Longrightarrow> cf_equal cmp b a" by blast
  from all show "cf_equal cmp a b \<Longrightarrow> cf_equal cmp b c \<Longrightarrow> cf_equal cmp a c" by blast
  from all show "cf_less cmp a b \<Longrightarrow> cf_less cmp b c \<Longrightarrow> cf_less cmp a c" by blast
  from all show "cf_greater cmp a b \<Longrightarrow> cf_greater cmp b c \<Longrightarrow> cf_greater cmp a c" by blast
qed

lemma cf_trichotomy:
  assumes "cmp a b = Some v"
  shows "(cf_less cmp a b \<and> \<not> cf_equal cmp a b \<and> \<not> cf_greater cmp a b)
       \<or> (\<not> cf_less cmp a b \<and> cf_equal cmp a b \<and> \<not> cf_greater cmp a b)
       \<or> (\<not> cf_less cmp a b \<and> \<not> cf_equal cmp a b \<and> cf_greater cmp a b)"
  using assms by (auto simp: cf_less_def cf_equal_def cf_greater_def)

lemma consistent_subset:
  assumes "consistent_on cmp xs" and "set ys \<subseteq> set xs"
  shows "consistent_on cmp ys"
  unfolding consistent_on_def
proof (intro ballI)
  fix a b c
  assume "a \<in> set ys" "b \<in> set ys" "c \<in> set ys"
  with assms(2) have "a \<in> set xs" "b \<in> set xs" "c \<in> set xs" by auto
  with assms(1) show "cmp a b \<noteq> None
      \<and> cf_equal cmp a a
      \<and> (cf_equal cmp a b \<longrightarrow> cf_equal cmp b a)
      \<and> (cf_equal cmp a b \<and> cf_equal cmp b c \<longrightarrow> cf_equal cmp a c)
      \<and> (cf_less cmp a b \<and> cf_less cmp b c \<longrightarrow> cf_less cmp a c)
      \<and> (cf_greater cmp a b \<and> cf_greater cmp b c \<longrightarrow> cf_greater cmp a c)"
    unfolding consistent_on_def by blast
qed

lemma cf_irrefl:
  assumes c: "consistent_on cmp xs" and a: "a \<in> set xs"
  shows "\<not> cf_less cmp a a" and "\<not> cf_greater cmp a a"
  using consistent_onD(2) [OF c a a a]
  by (auto simp: cf_less_def cf_equal_def cf_greater_def split: option.splits)

lemma cf_greater_less:
  assumes c: "consistent_on cmp xs" and a: "a \<in> set xs" and b: "b \<in> set xs"
    and g: "cf_greater cmp a b"
  shows "cf_less cmp b a"
proof -
  from consistent_onD(1) [OF c b a b] obtain v where ba: "cmp b a = Some v" by auto
  from consistent_onD(1) [OF c a b a] obtain w where ab: "cmp a b = Some w" by auto
  have "\<not> cf_equal cmp b a"
  proof
    assume "cf_equal cmp b a"
    then have "cf_equal cmp a b" by (rule consistent_onD(3) [OF c b a a])
    with g cf_trichotomy [of cmp a b, OF ab] show False by blast
  qed
  moreover have "\<not> cf_greater cmp b a"
  proof
    assume "cf_greater cmp b a"
    with g have "cf_greater cmp a a" by (rule consistent_onD(6) [OF c a b a])
    with cf_irrefl(2) [OF c a] show False by blast
  qed
  ultimately show ?thesis using cf_trichotomy [of cmp b a, OF ba] by blast
qed

lemma cf_le_trans:
  assumes c: "consistent_on cmp xs" and a: "a \<in> set xs" and b: "b \<in> set xs" and d: "d \<in> set xs"
    and ab: "\<not> cf_greater cmp a b" and bd: "\<not> cf_greater cmp b d"
  shows "\<not> cf_greater cmp a d"
proof
  assume ad: "cf_greater cmp a d"
  then have da: "cf_less cmp d a" by (rule cf_greater_less [OF c a d])
  from consistent_onD(1) [OF c a b a] obtain v1 where nab: "cmp a b = Some v1" by auto
  from consistent_onD(1) [OF c b d b] obtain v2 where nbd: "cmp b d = Some v2" by auto
  from consistent_onD(1) [OF c d b d] obtain v3 where ndb: "cmp d b = Some v3" by auto
  from consistent_onD(1) [OF c b a b] obtain v4 where nba: "cmp b a = Some v4" by auto
  from consistent_onD(1) [OF c a d a] obtain v5 where nad: "cmp a d = Some v5" by auto
  from ab cf_trichotomy [of cmp a b, OF nab] have ab': "cf_less cmp a b \<or> cf_equal cmp a b" by blast
  from bd cf_trichotomy [of cmp b d, OF nbd] have bd': "cf_less cmp b d \<or> cf_equal cmp b d" by blast
  from ab' bd' show False
  proof (elim disjE)
    assume 1: "cf_less cmp a b" and 2: "cf_less cmp b d"
    then have "cf_less cmp a d" by (rule consistent_onD(5) [OF c a b d])
    with da have "cf_less cmp d d" by (rule consistent_onD(5) [OF c d a d])
    with cf_irrefl(1) [OF c d] show False by blast
  next
    assume 1: "cf_less cmp a b" and 2: "cf_equal cmp b d"
    from da 1 have db: "cf_less cmp d b" by (rule consistent_onD(5) [OF c d a b])
    from 2 have "cf_equal cmp d b" by (rule consistent_onD(3) [OF c b d b])
    with db cf_trichotomy [of cmp d b, OF ndb] show False by blast
  next
    assume 1: "cf_equal cmp a b" and 2: "cf_less cmp b d"
    from 2 da have ba: "cf_less cmp b a" by (rule consistent_onD(5) [OF c b d a])
    from 1 have "cf_equal cmp b a" by (rule consistent_onD(3) [OF c a b a])
    with ba cf_trichotomy [of cmp b a, OF nba] show False by blast
  next
    assume 1: "cf_equal cmp a b" and 2: "cf_equal cmp b d"
    then have "cf_equal cmp a d" by (rule consistent_onD(4) [OF c a b d])
    with ad cf_trichotomy [of cmp a d, OF nad] show False by blast
  qed
qed

lemma set_insert_sorted: "set (insert_sorted cmp x ys) = insert x (set ys)"
  by (induction ys) (auto split: option.splits)

lemma set_stable_sort: "set (stable_sort cmp xs) = set xs"
  using mset_stable_sort [of cmp xs] by (metis set_mset_mset)

lemma sorted_insert_sorted:
  assumes c: "consistent_on cmp (x # ys)"
    and s: "sorted_wrt (\<lambda>a b. \<not> cf_greater cmp a b) ys"
  shows "sorted_wrt (\<lambda>a b. \<not> cf_greater cmp a b) (insert_sorted cmp x ys)"
  using assms
proof (induction ys)
  case Nil
  then show ?case by simp
next
  case (Cons y ys)
  have c': "consistent_on cmp (x # ys)"
    by (rule consistent_subset [OF Cons.prems(1)]) auto
  have xin: "x \<in> set (x # y # ys)" and yin: "y \<in> set (x # y # ys)" by simp_all
  from consistent_onD(1) [OF Cons.prems(1) xin yin xin] obtain v where v: "cmp x y = Some v" by auto
  from consistent_onD(1) [OF Cons.prems(1) yin xin yin] obtain w where w: "cmp y x = Some w" by auto
  show ?case
  proof (cases "0 < v")
    case True
    then have g: "cf_greater cmp x y" using v by (simp add: cf_greater_def)
    from cf_greater_less [OF Cons.prems(1) xin yin g] have "cf_less cmp y x" .
    then have yx: "\<not> cf_greater cmp y x"
      using cf_trichotomy [of cmp y x, OF w] by blast
    from Cons.prems(2) have ys: "sorted_wrt (\<lambda>a b. \<not> cf_greater cmp a b) ys"
      and yall: "\<forall>z \<in> set ys. \<not> cf_greater cmp y z" by simp_all
    from Cons.IH [OF c' ys] have "sorted_wrt (\<lambda>a b. \<not> cf_greater cmp a b) (insert_sorted cmp x ys)" .
    moreover have "\<forall>z \<in> set (insert_sorted cmp x ys). \<not> cf_greater cmp y z"
      using yx yall by (simp add: set_insert_sorted)
    ultimately show ?thesis using v True by simp
  next
    case False
    then have xy: "\<not> cf_greater cmp x y" using v by (simp add: cf_greater_def)
    have "\<not> cf_greater cmp x z" if z: "z \<in> set ys" for z
    proof -
      from Cons.prems(2) z have yz: "\<not> cf_greater cmp y z" by simp
      have zin: "z \<in> set (x # y # ys)" using z by simp
      from cf_le_trans [OF Cons.prems(1) xin yin zin xy yz] show ?thesis .
    qed
    with xy Cons.prems(2) v False show ?thesis by simp
  qed
qed

lemma sorted_stable_sort:
  assumes "consistent_on cmp xs"
  shows "sorted_wrt (\<lambda>a b. \<not> cf_greater cmp a b) (stable_sort cmp xs)"
  using assms
proof (induction xs)
  case Nil
  then show ?case by (simp add: stable_sort_def)
next
  case (Cons x xs)
  have c': "consistent_on cmp xs" by (rule consistent_subset [OF Cons.prems]) auto
  have "consistent_on cmp (x # stable_sort cmp xs)"
    by (rule consistent_subset [OF Cons.prems]) (simp add: set_stable_sort)
  from sorted_insert_sorted [OF this Cons.IH [OF c']] show ?case
    by (simp add: stable_sort_def)
qed

lemma filter_insert_sorted:
  assumes c: "consistent_on cmp (a # x # ys)"
  shows "filter (cf_equal cmp a) (insert_sorted cmp x ys) = filter (cf_equal cmp a) (x # ys)"
  using assms
proof (induction ys)
  case Nil
  then show ?case by simp
next
  case (Cons y ys)
  have ain: "a \<in> set (a # x # y # ys)" and xin: "x \<in> set (a # x # y # ys)"
    and yin: "y \<in> set (a # x # y # ys)" by simp_all
  from consistent_onD(1) [OF Cons.prems(1) xin yin xin] obtain v where v: "cmp x y = Some v" by auto
  show ?case
  proof (cases "0 < v")
    case False
    with v show ?thesis by simp
  next
    case True
    then have g: "cf_greater cmp x y" using v by (simp add: cf_greater_def)
    have notboth: "\<not> (cf_equal cmp a x \<and> cf_equal cmp a y)"
    proof
      assume e: "cf_equal cmp a x \<and> cf_equal cmp a y"
      then have "cf_equal cmp x a" using consistent_onD(3) [OF Cons.prems(1) ain xin xin] by blast
      with e have "cf_equal cmp x y" using consistent_onD(4) [OF Cons.prems(1) xin ain yin] by blast
      with g cf_trichotomy [of cmp x y, OF v] show False by blast
    qed
    have c': "consistent_on cmp (a # x # ys)"
      by (rule consistent_subset [OF Cons.prems(1)]) auto
    from Cons.IH [OF c']
    have IH: "filter (cf_equal cmp a) (insert_sorted cmp x ys) = filter (cf_equal cmp a) (x # ys)" .
    with v True notboth show ?thesis by auto
  qed
qed

lemma filter_stable_sort_gen:
  assumes "consistent_on cmp (a # xs)"
  shows "filter (cf_equal cmp a) (stable_sort cmp xs) = filter (cf_equal cmp a) xs"
  using assms
proof (induction xs)
  case Nil
  then show ?case by (simp add: stable_sort_def)
next
  case (Cons x xs)
  have c': "consistent_on cmp (a # xs)" by (rule consistent_subset [OF Cons.prems(1)]) auto
  have cs: "consistent_on cmp (a # x # stable_sort cmp xs)"
    by (rule consistent_subset [OF Cons.prems(1)]) (simp add: set_stable_sort)
  from filter_insert_sorted [OF cs] Cons.IH [OF c'] show ?case
    by (simp add: stable_sort_def)
qed

lemma filter_stable_sort:
  assumes "consistent_on cmp xs" and "a \<in> set xs"
  shows "filter (cf_equal cmp a) (stable_sort cmp xs) = filter (cf_equal cmp a) xs"
proof -
  have "consistent_on cmp (a # xs)"
    by (rule consistent_subset [OF assms(1)]) (simp add: assms(2))
  then show ?thesis by (rule filter_stable_sort_gen)
qed

lemma cf_less_greater:
  assumes c: "consistent_on cmp xs" and a: "a \<in> set xs" and b: "b \<in> set xs"
    and l: "cf_less cmp a b"
  shows "cf_greater cmp b a"
proof -
  from consistent_onD(1) [OF c b a b] obtain v where ba: "cmp b a = Some v" by auto
  from consistent_onD(1) [OF c a b a] obtain w where ab: "cmp a b = Some w" by auto
  have "\<not> cf_equal cmp b a"
  proof
    assume "cf_equal cmp b a"
    then have "cf_equal cmp a b" by (rule consistent_onD(3) [OF c b a a])
    with l cf_trichotomy [of cmp a b, OF ab] show False by blast
  qed
  moreover have "\<not> cf_less cmp b a"
  proof
    assume "cf_less cmp b a"
    with l have "cf_less cmp a a" by (rule consistent_onD(5) [OF c a b a])
    with cf_irrefl(1) [OF c a] show False by blast
  qed
  ultimately show ?thesis using cf_trichotomy [of cmp b a, OF ba] by blast
qed

lemma cf_le_antisym:
  assumes c: "consistent_on cmp xs" and a: "a \<in> set xs" and b: "b \<in> set xs"
    and ab: "\<not> cf_greater cmp a b" and ba: "\<not> cf_greater cmp b a"
  shows "cf_equal cmp a b"
proof -
  from consistent_onD(1) [OF c a b a] obtain w where w: "cmp a b = Some w" by auto
  have "\<not> cf_less cmp a b" using cf_less_greater [OF c a b] ba by blast
  with ab cf_trichotomy [of cmp a b, OF w] show ?thesis by blast
qed

lemma stable_sorted_unique:
  assumes "consistent_on cmp ys" and "mset zs = mset ys"
    and "sorted_wrt (\<lambda>a b. \<not> cf_greater cmp a b) ys"
    and "sorted_wrt (\<lambda>a b. \<not> cf_greater cmp a b) zs"
    and "\<forall>a \<in> set ys. filter (cf_equal cmp a) zs = filter (cf_equal cmp a) ys"
  shows "zs = ys"
  using assms
proof (induction ys arbitrary: zs)
  case Nil
  then show ?case by simp
next
  case (Cons y ys)
  from Cons.prems(2) obtain z zs' where zs: "zs = z # zs'" by (cases zs) auto
  have sets: "set zs = set (y # ys)" using Cons.prems(2) by (metis set_mset_mset)
  have yin: "y \<in> set (y # ys)" by simp
  have zin: "z \<in> set (y # ys)" using sets zs by auto
  have yzs: "y \<in> set (z # zs')" using sets zs by auto
  have yy: "cf_equal cmp y y" by (rule consistent_onD(2) [OF Cons.prems(1) yin yin yin])
  have zz: "cf_equal cmp z z" by (rule consistent_onD(2) [OF Cons.prems(1) zin zin zin])
  have yz: "\<not> cf_greater cmp y z"
  proof (cases "z = y")
    case True
    with cf_irrefl(2) [OF Cons.prems(1) yin] show ?thesis by simp
  next
    case False
    with zin have "z \<in> set ys" by simp
    with Cons.prems(3) show ?thesis by simp
  qed
  have zy: "\<not> cf_greater cmp z y"
  proof (cases "y = z")
    case True
    with cf_irrefl(2) [OF Cons.prems(1) zin] show ?thesis by simp
  next
    case False
    with yzs have "y \<in> set zs'" by simp
    with Cons.prems(4) zs show ?thesis by simp
  qed
  from cf_le_antisym [OF Cons.prems(1) yin zin yz zy] have eq: "cf_equal cmp y z" .
  from Cons.prems(5) yin have "filter (cf_equal cmp y) zs = filter (cf_equal cmp y) (y # ys)" by blast
  with zs eq yy have head: "z = y" by simp
  have tails: "\<forall>a \<in> set ys. filter (cf_equal cmp a) zs' = filter (cf_equal cmp a) ys"
  proof
    fix a assume "a \<in> set ys"
    then have "filter (cf_equal cmp a) zs = filter (cf_equal cmp a) (y # ys)"
      using Cons.prems(5) by simp
    with zs head show "filter (cf_equal cmp a) zs' = filter (cf_equal cmp a) ys"
      by (cases "cf_equal cmp a y") simp_all
  qed
  have c': "consistent_on cmp ys" by (rule consistent_subset [OF Cons.prems(1)]) auto
  have m': "mset zs' = mset ys" using Cons.prems(2) zs head by simp
  have s1: "sorted_wrt (\<lambda>a b. \<not> cf_greater cmp a b) ys" using Cons.prems(3) by simp
  have s2: "sorted_wrt (\<lambda>a b. \<not> cf_greater cmp a b) zs'" using Cons.prems(4) zs by simp
  from Cons.IH [OF c' m' s1 s2 tails] zs head show ?case by simp
qed

lemma stable_sort_is_the_stable_sorted_arrangement:
  assumes c: "consistent_on cmp xs" and m: "mset zs = mset xs"
    and s: "sorted_wrt (\<lambda>a b. \<not> cf_greater cmp a b) zs"
    and st: "\<forall>a \<in> set xs. filter (cf_equal cmp a) zs = filter (cf_equal cmp a) xs"
  shows "zs = stable_sort cmp xs"
proof -
  have c': "consistent_on cmp (stable_sort cmp xs)"
    by (rule consistent_subset [OF c]) (simp add: set_stable_sort)
  have "\<forall>a \<in> set (stable_sort cmp xs).
          filter (cf_equal cmp a) zs = filter (cf_equal cmp a) (stable_sort cmp xs)"
    using st filter_stable_sort [OF c] by (simp add: set_stable_sort)
  with c' m sorted_stable_sort [OF c] s show ?thesis
    by (intro stable_sorted_unique) (simp_all add: mset_stable_sort)
qed


lemma length_sortRows: "length (sortRows h csvData) = length csvData"
  by (simp add: sortRows_def length_js_sort)

lemma set_sortRows: "set (sortRows h csvData) = set csvData"
  by (simp add: sortRows_def set_js_sort)

lemma sum_sortRows: "sum_list (map f (sortRows h csvData)) = (sum_list (map f csvData) :: nat)"
  by (simp add: sortRows_def sum_js_sort)

lemma themes_forEach_eq:
  "themes_forEach h themes r ei ts (lks, con) =
     (lks @ map (\<lambda>t. eventLink h r (indexOf themes t) ei t) (filter (\<lambda>t. t \<in> set themes) ts),
      con @ map (\<lambda>t. Warn_theme_not_found t themes) (filter (\<lambda>t. t \<notin> set themes) ts))"
  by (induction ts arbitrary: lks con) (simp_all add: indexOf_found_iff indexOf_absent)

lemma rows_forEach_eq:
  "rows_forEach h themes index rs (lks, con) =
     (lks @ concat (map (\<lambda>(i, r). rowLinks h themes (int (length themes) + int i) r)
                      (enumerate index rs)),
      con @ concat (map (\<lambda>r. Log_event_themes (Title r) (eventThemes r) # rowWarnings themes r) rs))"
  by (induction rs arbitrary: index lks con)
     (simp_all add: themes_forEach_eq rowLinks_def rowWarnings_def Let_def)

section \<open>The multi-theme transformer in closed form\<close>

lemma map_enumerate_index:
  assumes "\<And>i x. g (i, x) = f i"
  shows "map g (enumerate n xs) = map f [n..<n + length xs]"
proof -
  have "map g (enumerate n xs) = map (f \<circ> fst) (enumerate n xs)"
    using assms by (intro map_cong) auto
  also have "\<dots> = map f (map fst (enumerate n xs))" by (simp only: map_map)
  also have "\<dots> = map f [n..<n + length xs]" by (simp only: map_fst_enumerate)
  finally show ?thesis .
qed

lemma upt_int_append:
  "map int [0..<k + m] = map int [0..<k] @ map (\<lambda>i. int k + int i) [0..<m]"
  by (induction m) simp_all

lemma transform4_links:
  "links (fst (transformCSVToSankey4 h csvData themes)) =
     concat (map (\<lambda>(i, r). rowLinks h themes (int (length themes) + int i) r)
               (enumerate 0 (sortRows h csvData)))"
  by (simp add: transformCSVToSankey4_def rows_forEach_eq Let_def)

lemma transform4_console:
  "snd (transformCSVToSankey4 h csvData themes) =
     concat (map (\<lambda>r. Log_event_themes (Title r) (eventThemes r) # rowWarnings themes r)
               (sortRows h csvData))
     @ [Log_created (length (links (fst (transformCSVToSankey4 h csvData themes))))
          (length csvData)]"
  by (simp add: transformCSVToSankey4_def rows_forEach_eq Let_def length_sortRows)

lemma transform4_nodes:
  "nodes (fst (transformCSVToSankey4 h csvData themes)) =
     map themeNode (enumerate 0 themes)
     @ map (eventNode h themes) (enumerate 0 (sortRows h csvData))"
  by (simp add: transformCSVToSankey4_def rows_forEach_eq Let_def split: prod.splits)

lemma transform4_node_ids:
  "map node_id (nodes (fst (transformCSVToSankey4 h csvData themes))) =
     map int [0..<length themes + length csvData]"
proof -
  have a: "map (node_id \<circ> themeNode) (enumerate 0 themes) = map int [0..<0 + length themes]"
    by (rule map_enumerate_index) (simp add: themeNode_def)
  have b: "map (node_id \<circ> eventNode h themes) (enumerate 0 rs)
           = map (\<lambda>i. int (length themes) + int i) [0..<0 + length rs]" for rs
    by (rule map_enumerate_index) (simp add: eventNode_def)
  show ?thesis
    using a b [of "sortRows h csvData"]
    by (simp add: transform4_nodes upt_int_append length_sortRows)
qed

lemma transform2_node_ids:
  "map node_id (nodes (transformCSVToSankey2 csvData themes years)) =
     map int [0..<length themes + length years]"
proof -
  have a: "map (node_id \<circ> (\<lambda>(index, t).
             \<lparr>node_id = int index, node_name = t, node_type = ''theme'', x_position = 0\<rparr>))
             (enumerate 0 themes) = map int [0..<0 + length themes]"
    by (rule map_enumerate_index) simp
  have b: "map (node_id \<circ> (\<lambda>(index, y).
             \<lparr>node_id = int (length themes) + int index, node_name = y,
              node_type = ''year'', x_position = 1\<rparr>)) (enumerate 0 years)
           = map (\<lambda>i. int (length themes) + int i) [0..<0 + length years]"
    by (rule map_enumerate_index) simp
  show ?thesis
    using a b by (simp add: transformCSVToSankey2_def Let_def upt_int_append)
qed

lemma in_node_ids:
  assumes "map node_id ns = map int [0..<n]" and "0 \<le> i" and "i < int n"
  shows "i \<in> node_id ` set ns"
proof -
  have "nat i \<in> set [0..<n]" using assms(2,3) by simp
  then have "int (nat i) \<in> set (map int [0..<n])" by (simp only: set_map image_eqI)
  with assms(1,2) have "i \<in> set (map node_id ns)" by simp
  then show ?thesis by simp
qed

lemma loadThemes4_eq: "loadThemes4 csvData = unique (concat (map eventThemes csvData))"
proof -
  have "(\<lambda>x. map trim (str_split CHR '';'' (Theme x))) = eventThemes"
    by (rule ext) (simp add: eventThemes_def)
  then show ?thesis
    by (simp add: loadThemes4_def Let_def comp_def)
qed

lemma eventThemes_in_loadThemes4:
  "r \<in> set csvData \<Longrightarrow> t \<in> set (eventThemes r) \<Longrightarrow> t \<in> set (loadThemes4 csvData)"
  by (auto simp: loadThemes4_eq set_unique)

lemma rowLinks_target: "l \<in> set (rowLinks h themes e r) \<Longrightarrow> target l = e"
  by (auto simp: rowLinks_def eventLink_def)

lemma rowLinks_source:
  "l \<in> set (rowLinks h themes e r) \<Longrightarrow> 0 \<le> source l \<and> source l < int (length themes)"
  by (auto simp: rowLinks_def eventLink_def indexOf_present)

lemma rowLinks_theme: "l \<in> set (rowLinks h themes e r) \<Longrightarrow> theme l \<in> set themes"
  by (auto simp: rowLinks_def eventLink_def)

lemma rowLinks_all_known:
  "set (eventThemes r) \<subseteq> set themes \<Longrightarrow>
   rowLinks h themes e r = map (\<lambda>t. eventLink h r (indexOf themes t) e t) (eventThemes r)"
  by (simp add: rowLinks_def subset_iff)

lemma rowWarnings_all_known: "set (eventThemes r) \<subseteq> set themes \<Longrightarrow> rowWarnings themes r = []"
  by (auto simp: rowWarnings_def filter_empty_conv)

lemma length_concat_rowLinks:
  "length (concat (map (\<lambda>(i, r). rowLinks h themes (K + int i) r) (enumerate n rs))) =
     sum_list (map (\<lambda>r. length (filter (\<lambda>t. t \<in> set themes) (eventThemes r))) rs)"
  by (induction rs arbitrary: n) (simp_all add: rowLinks_def)

lemma transform4_link_count:
  "length (links (fst (transformCSVToSankey4 h csvData themes))) =
     sum_list (map (\<lambda>r. length (filter (\<lambda>t. t \<in> set themes) (eventThemes r))) csvData)"
  by (simp only: transform4_links length_concat_rowLinks sum_sortRows)

lemma transform4_link_mem:
  assumes "l \<in> set (links (fst (transformCSVToSankey4 h csvData themes)))"
  shows "\<exists>i r. i < length csvData \<and> r \<in> set csvData
            \<and> l \<in> set (rowLinks h themes (int (length themes) + int i) r)"
proof -
  from assms obtain p where p: "p \<in> set (enumerate 0 (sortRows h csvData))"
    and l: "l \<in> set (rowLinks h themes (int (length themes) + int (fst p)) (snd p))"
    by (auto simp: transform4_links)
  from p have fp: "fst p < length (sortRows h csvData)"
    and sp: "sortRows h csvData ! fst p = snd p"
    by (auto simp: in_set_enumerate_eq)
  from fp sp have "snd p \<in> set (sortRows h csvData)"
    using nth_mem by metis
  with fp have "fst p < length csvData" and "snd p \<in> set csvData"
    by (simp_all add: length_sortRows set_sortRows)
  with l show ?thesis by blast
qed

lemma transform4_links_resolve:
  assumes "l \<in> set (links (fst (transformCSVToSankey4 h csvData themes)))"
  shows "source l \<in> node_id ` set (nodes (fst (transformCSVToSankey4 h csvData themes)))
       \<and> target l \<in> node_id ` set (nodes (fst (transformCSVToSankey4 h csvData themes)))"
proof -
  from transform4_link_mem [OF assms] obtain i r where i: "i < length csvData"
    and l: "l \<in> set (rowLinks h themes (int (length themes) + int i) r)" by blast
  from rowLinks_source [OF l] have s: "0 \<le> source l" "source l < int (length themes + length csvData)"
    by simp_all
  from rowLinks_target [OF l] i have t: "0 \<le> target l" "target l < int (length themes + length csvData)"
    by simp_all
  show ?thesis
    using in_node_ids [OF transform4_node_ids s] in_node_ids [OF transform4_node_ids t] by simp
qed

lemma transform2_links_resolve:
  assumes "l \<in> set (links (sankeyData2 csvData))"
  shows "source l \<in> node_id ` set (nodes (sankeyData2 csvData))
       \<and> target l \<in> node_id ` set (nodes (sankeyData2 csvData))"
proof -
  let ?themes = "loadThemes2 csvData" and ?years = "loadYears2 csvData"
  from assms obtain r where r: "r \<in> set csvData"
    and src: "source l = indexOf ?themes (Theme r)"
    and tgt: "target l = int (length ?themes) + indexOf ?years (Year r)"
    by (auto simp: sankeyData2_def transformCSVToSankey2_def Let_def)
  from r have "Theme r \<in> set ?themes" and "Year r \<in> set ?years"
    by (simp_all add: loadThemes2_def loadYears2_def set_unique)
  from indexOf_present [OF this(1)] indexOf_present [OF this(2)] src tgt
  have s: "0 \<le> source l" "source l < int (length ?themes + length ?years)"
   and t: "0 \<le> target l" "target l < int (length ?themes + length ?years)"
    by simp_all
  have ids: "map node_id (nodes (sankeyData2 csvData)) = map int [0..<length ?themes + length ?years]"
    by (simp add: sankeyData2_def transform2_node_ids)
  show ?thesis
    using in_node_ids [OF ids s] in_node_ids [OF ids t] by simp
qed

lemma unique_nonempty: "xs \<noteq> [] \<Longrightarrow> unique xs \<noteq> []"
  using set_unique [of xs] by (metis set_empty)

lemma transform2_sizes:
  assumes "csvData \<noteq> []"
  shows "2 \<le> length (nodes (sankeyData2 csvData))" and "1 \<le> length (links (sankeyData2 csvData))"
proof -
  from assms have "loadThemes2 csvData \<noteq> []" and "loadYears2 csvData \<noteq> []"
    by (simp_all add: loadThemes2_def loadYears2_def unique_nonempty)
  then have "1 \<le> length (loadThemes2 csvData)" and "1 \<le> length (loadYears2 csvData)"
    by (simp_all add: Suc_le_eq)
  then show "2 \<le> length (nodes (sankeyData2 csvData))"
    by (simp add: sankeyData2_def transformCSVToSankey2_def Let_def)
  from assms show "1 \<le> length (links (sankeyData2 csvData))"
    by (simp add: sankeyData2_def transformCSVToSankey2_def Let_def Suc_le_eq)
qed

lemma sankeyData4_link_count:
  "length (links (fst (sankeyData4 h csvData))) = sum_list (map (\<lambda>r. length (eventThemes r)) csvData)"
proof -
  have "map (\<lambda>r. length (filter (\<lambda>t. t \<in> set (loadThemes4 csvData)) (eventThemes r))) csvData
        = map (\<lambda>r. length (eventThemes r)) csvData"
    by (rule map_cong) (auto simp: eventThemes_in_loadThemes4)
  then show ?thesis
    by (simp only: sankeyData4_def transform4_link_count)
qed

lemma transform4_sizes:
  assumes "csvData \<noteq> []"
  shows "2 \<le> length (nodes (fst (sankeyData4 h csvData)))"
    and "1 \<le> length (links (fst (sankeyData4 h csvData)))"
proof -
  from assms obtain r rs where rows: "csvData = r # rs" by (cases csvData) auto
  have "eventThemes r \<noteq> []" by (rule eventThemes_nonempty)
  then have len: "1 \<le> length (eventThemes r)" by (simp add: Suc_le_eq)
  then have "concat (map eventThemes csvData) \<noteq> []" using rows by auto
  then have "loadThemes4 csvData \<noteq> []" by (simp add: loadThemes4_eq unique_nonempty)
  then have "1 \<le> length (loadThemes4 csvData)" by (simp add: Suc_le_eq)
  moreover have "1 \<le> length csvData" using rows by simp
  ultimately show "2 \<le> length (nodes (fst (sankeyData4 h csvData)))"
    by (simp add: sankeyData4_def transform4_nodes length_sortRows)
  show "1 \<le> length (links (fst (sankeyData4 h csvData)))"
    using len by (simp add: sankeyData4_link_count rows)
qed

lemma sankeyData4_no_warnings: "filter is_warning (snd (sankeyData4 h csvData)) = []"
proof -
  have "rowWarnings (loadThemes4 csvData) r = []" if "r \<in> set csvData" for r
    using that by (intro rowWarnings_all_known) (auto simp: eventThemes_in_loadThemes4)
  then have "concat (map (\<lambda>r. filter is_warning
                 (Log_event_themes (Title r) (eventThemes r) # rowWarnings (loadThemes4 csvData) r))
               (sortRows h csvData)) = []"
    by (simp add: set_sortRows)
  then show ?thesis
    by (simp add: sankeyData4_def transform4_console filter_concat comp_def)
qed

text \<open>Evaluation of the sample inputs.\<close>

lemma exampleHost_simps:
  "parseInt exampleHost = parseIntDecimal"
  "localeCompare exampleHost = codeUnitCompare"
  "sortOrder exampleHost = (\<lambda>cmp rows. [])"
  by (simp_all add: exampleHost_def)

lemma parse_examples:
  "parseIntDecimal ''1910'' = Some 1910" "parseIntDecimal ''1900'' = Some 1900"
  by (simp_all add: parseIntDecimal_def isWhiteSpace_def isDigit_def)

lemma compare_rowsB:
  "compareRows exampleHost rowB1 rowB1 = Some 0"
  "compareRows exampleHost rowB2 rowB2 = Some 0"
  "compareRows exampleHost rowB1 rowB2 = Some 10"
  "compareRows exampleHost rowB2 rowB1 = Some (- 10)"
  by (simp_all add: compareRows_def exampleHost_simps parse_examples rowB1_def rowB2_def Let_def)

lemma rowsB_consistent: "consistent_on (compareRows exampleHost) rowsB"
  by (simp add: rowsB_def consistent_on_def cf_less_def cf_equal_def cf_greater_def compare_rowsB)

lemma sortRows_rowsB: "sortRows exampleHost rowsB = [rowB2, rowB1]"
  using rowsB_consistent
  by (simp add: sortRows_def js_sort_def stable_sort_def compare_rowsB rowsB_def)

lemmas eval2 = sankeyData2_def transformCSVToSankey2_def loadThemes2_def loadYears2_def
  unique_def indexOf_def

lemmas eval4 = sankeyData4_def transformCSVToSankey4_def loadThemes4_def unique_def indexOf_def
  Let_def sortRows_rowsB [unfolded rowsB_def rowB1_def rowB2_def] rowsB_def rowB1_def rowB2_def
  exampleHost_simps parseIntDecimal_def isWhiteSpace_def
  isDigit_def str_split_def trim_def eventLink_def themeNode_def eventNode_def eventThemes_def

section \<open>Claims about the Graph Transformer\<close>

text \<open>
  Claim C1. For every CSV input with at least one row, the dataset the loader obtains from
  the transformer has at least two nodes and at least one link, and the source and the
  target of every link are ids of nodes of the dataset. This holds on the single-theme
  page and on the multi-theme page.
\<close>

theorem transformer_dataset_wellformed:
  assumes "csvData \<noteq> []"
  shows "2 \<le> length (nodes (sankeyData2 csvData))
       \<and> 1 \<le> length (links (sankeyData2 csvData))
       \<and> (\<forall>l \<in> set (links (sankeyData2 csvData)).
            source l \<in> node_id ` set (nodes (sankeyData2 csvData))
          \<and> target l \<in> node_id ` set (nodes (sankeyData2 csvData)))
       \<and> 2 \<le> length (nodes (fst (sankeyData4 h csvData)))
       \<and> 1 \<le> length (links (fst (sankeyData4 h csvData)))
       \<and> (\<forall>l \<in> set (links (fst (sankeyData4 h csvData))).
            source l \<in> node_id ` set (nodes (fst (sankeyData4 h csvData)))
          \<and> target l \<in> node_id ` set (nodes (fst (sankeyData4 h csvData))))"
  using transform2_sizes [OF assms] transform4_sizes [OF assms, of h]
    transform2_links_resolve [of _ csvData]
    transform4_links_resolve [of _ h csvData "loadThemes4 csvData"]
  unfolding sankeyData4_def [symmetric]
  by blast

text \<open>The two-row scenario of the single-theme page, and two multi-theme rows.\<close>

theorem transformer_dataset_wellformed_witness:
  "rowsA \<noteq> []
   \<and> length (nodes (sankeyData2 rowsA)) = 3 \<and> length (links (sankeyData2 rowsA)) = 2
   \<and> map source (links (sankeyData2 rowsA)) = [0, 0]
   \<and> map target (links (sankeyData2 rowsA)) = [1, 2]
   \<and> map node_id (nodes (sankeyData2 rowsA)) = [0, 1, 2]
   \<and> length (nodes (fst (sankeyData4 exampleHost rowsB))) = 5
   \<and> map source (links (fst (sankeyData4 exampleHost rowsB))) = [1, 2, 0, 1]
   \<and> map target (links (fst (sankeyData4 exampleHost rowsB))) = [3, 3, 4, 4]
   \<and> map node_id (nodes (fst (sankeyData4 exampleHost rowsB))) = [0, 1, 2, 3, 4]"
  using transformer_dataset_wellformed [of rowsA exampleHost]
  by (simp add: eval2 eval4 rowsA_def)

text \<open>
  Claim C9. On the multi-theme page, with the theme list the loader computes, every
  trimmed theme listed by a row is found in the list, no warning is written, and the
  number of links is the number of listed theme entries over all rows.
\<close>

theorem loader_themes_always_resolve:
  "(\<forall>r \<in> set csvData. \<forall>t \<in> set (eventThemes r). indexOf (loadThemes4 csvData) t \<noteq> - 1)
   \<and> filter is_warning (snd (sankeyData4 h csvData)) = []
   \<and> length (links (fst (sankeyData4 h csvData)))
       = sum_list (map (\<lambda>r. length (eventThemes r)) csvData)"
  using sankeyData4_no_warnings [of h csvData] sankeyData4_link_count [of h csvData]
  by (simp add: indexOf_found_iff eventThemes_in_loadThemes4)

theorem loader_themes_always_resolve_witness:
  "loadThemes4 rowsB = [''War'', ''Trade'', ''X'']
   \<and> map eventThemes rowsB = [[''War'', ''Trade''], [''Trade'', ''X'']]
   \<and> filter is_warning (snd (sankeyData4 exampleHost rowsB)) = []
   \<and> length (links (fst (sankeyData4 exampleHost rowsB))) = 4"
  using loader_themes_always_resolve [of rowsB exampleHost]
  by (simp add: eval4)

section \<open>Order of the nodes, and the links of one event\<close>


























section \<open>Further claims about the Graph Transformer\<close>





text \<open>
  Claim C4. When a row lists a value that is not in the theme list, no link carries that
  value, a warning naming it is written to the console, and the transformer still
  returns its dataset: the links are those of every listed value that is in the list,
  for every row. (The transformer has no failing branch on rows of strings.)
\<close>

theorem unknown_theme_is_dropped:
  assumes "r \<in> set csvData" and "t \<in> set (eventThemes r)" and "t \<notin> set themes"
  shows "t \<notin> theme ` set (links (fst (transformCSVToSankey4 h csvData themes)))
       \<and> Warn_theme_not_found t themes \<in> set (snd (transformCSVToSankey4 h csvData themes))
       \<and> links (fst (transformCSVToSankey4 h csvData themes))
           = concat (map (\<lambda>(i, row).
               map (\<lambda>x. eventLink h row (indexOf themes x) (int (length themes) + int i) x)
                 (filter (\<lambda>x. x \<in> set themes) (eventThemes row)))
               (enumerate 0 (sortRows h csvData)))"
proof -
  have "theme l \<noteq> t" if "l \<in> set (links (fst (transformCSVToSankey4 h csvData themes)))" for l
    using transform4_link_mem [OF that] rowLinks_theme assms(3) by blast
  then have a: "t \<notin> theme ` set (links (fst (transformCSVToSankey4 h csvData themes)))"
    by blast
  from assms have "Warn_theme_not_found t themes \<in> set (rowWarnings themes r)"
    by (simp add: rowWarnings_def)
  with assms(1) have b: "Warn_theme_not_found t themes \<in> set (snd (transformCSVToSankey4 h csvData themes))"
    by (auto simp: transform4_console set_sortRows)
  have c: "links (fst (transformCSVToSankey4 h csvData themes))
           = concat (map (\<lambda>(i, row).
               map (\<lambda>x. eventLink h row (indexOf themes x) (int (length themes) + int i) x)
                 (filter (\<lambda>x. x \<in> set themes) (eventThemes row)))
               (enumerate 0 (sortRows h csvData)))"
    by (simp add: transform4_links rowLinks_def)
  from a b c show ?thesis by blast
qed

theorem unknown_theme_is_dropped_witness:
  "''X'' \<in> set (eventThemes \<lparr>Theme = ''Trade;X '', Year = ''1900'', Title = ''a'', Description = ''d1''\<rparr>)
   \<and> ''X'' \<notin> set [''War'', ''Trade'']
   \<and> map theme (links (fst (transformCSVToSankey4 exampleHost rowsB [''War'', ''Trade''])))
       = [''Trade'', ''War'', ''Trade'']
   \<and> snd (transformCSVToSankey4 exampleHost rowsB [''War'', ''Trade''])
       = [Log_event_themes ''a'' [''Trade'', ''X''],
          Warn_theme_not_found ''X'' [''War'', ''Trade''],
          Log_event_themes ''b'' [''War'', ''Trade''], Log_created 3 2]"
  using unknown_theme_is_dropped [of
      "rowB2"
      rowsB "''X''" "[''War'', ''Trade'']" exampleHost]
  by (simp add: eval4)

section \<open>The load operation\<close>

lemma createSankeyDiagram_container:
  "createSankeyDiagram lib data st = Inl (m, st') \<Longrightarrow> chartContainer st' = chartContainer st"
  "createSankeyDiagram lib data st = Inr st' \<Longrightarrow> chartContainer st' = chartContainer st"
  by (auto simp: createSankeyDiagram_def Let_def split: option.splits if_splits)

lemma loadData_try_container:
  assumes "loadData_try h lib response st = Inl (message, st1)"
  shows "chartContainer st1 = chartContainer st"
  using assms
  by (auto simp: loadData_try_def Let_def parseCSVData_def createSankeyDiagram_def
      split: fetched.splits if_splits option.splits)

lemma loadData_caught:
  assumes "loadData_try h lib response st = Inl (message, st1)"
  shows "loadData h lib response st =
           (if chartContainer st then
              (case lib fallbackData of
                 None \<Rightarrow> Inr (st1\<lparr>loading := False, error := Some message,
                                 currentData := Some fallbackData, drawn := Some fallbackData\<rparr>)
               | Some m \<Rightarrow> Inl (m, st1\<lparr>loading := False, error := Some message,
                                     currentData := Some fallbackData, drawn := None\<rparr>))
            else Inr (st1\<lparr>loading := False, error := Some message,
                          currentData := Some fallbackData\<rparr>))"
  using assms loadData_try_container [OF assms]
  by (simp add: loadData_def useFallbackData_def createSankeyDiagram_def Let_def
      split: option.splits)

lemma loadData_try_rejected:
  "loadData_try h lib (Rejected message) st = Inl (message, st\<lparr>loading := True, error := None\<rparr>)"
  by (simp add: loadData_try_def)

lemma loadData_try_invalid:
  assumes "fst (parseCSVData csvData) = [] \<or> snd (parseCSVData csvData) = []"
  shows "loadData_try h lib (Resolved csvData) st
         = Inl (''Invalid or empty CSV data'', st\<lparr>loading := True, error := None\<rparr>)"
  using assms by (auto simp: loadData_try_def Let_def split: prod.splits)

lemma loadData_try_layout:
  assumes "fst (parseCSVData csvData) \<noteq> []" and "snd (parseCSVData csvData) \<noteq> []"
    and "chartContainer st"
    and "lib (transformData h (fst (parseCSVData csvData)) (snd (parseCSVData csvData))) = Some message"
  shows "loadData_try h lib (Resolved csvData) st
         = Inl (message,
                st\<lparr>loading := False, error := None,
                   currentData := Some (transformData h (fst (parseCSVData csvData))
                                          (snd (parseCSVData csvData))),
                   drawn := None\<rparr>)"
proof -
  from assms(1) have "csvData \<noteq> []" by (auto simp: parseCSVData_def)
  with assms show ?thesis
    by (auto simp: loadData_try_def createSankeyDiagram_def Let_def split: prod.splits)
qed

lemma loadData2_caught:
  assumes "loadData2_try lib response st = Inl (message, st1)"
  shows "loadData2 lib response st =
           st1\<lparr>error := Some message, debugInfo := CSV_failed message, loading := False\<rparr>"
  using assms by (simp add: loadData2_def)

lemma loadData4_caught:
  assumes "loadData4_try h lib response st = Inl (message, st1)"
  shows "loadData4 h lib response st =
           st1\<lparr>error := Some message, debugInfo := CSV_failed message, loading := False\<rparr>"
  using assms by (simp add: loadData4_def)

lemma loadData2_try_cases:
  "loadData2_try lib (Rejected message) st
     = Inl (message, st\<lparr>loading := True, error := None, debugInfo := Loading_sample_site_data\<rparr>)"
  "loadData2_try lib (Resolved []) st
     = Inl (''CSV data was empty'', st\<lparr>loading := True, error := None, debugInfo := CSV_loaded 0\<rparr>)"
  by (simp_all add: loadData2_try_def)

lemma loadData4_try_cases:
  "loadData4_try h lib (Rejected message) st
     = Inl (message, st\<lparr>loading := True, error := None, debugInfo := Loading_sample_site_data\<rparr>)"
  "loadData4_try h lib (Resolved []) st
     = Inl (''CSV data was empty'', st\<lparr>loading := True, error := None, debugInfo := CSV_loaded 0\<rparr>)"
  by (simp_all add: loadData4_try_def)

lemma show_nat_9: "show_nat 9 = ''9''"
  by (simp add: show_nat.simps [of 9])

lemma danglingData:
  "transformData exampleHost (fst (parseCSVData danglingRows)) (snd (parseCSVData danglingRows))
   = \<lparr>nodes = [\<lparr>node_id = Some 0, node_name = ''A'', node_type = ''theme'', x_position = Some 0\<rparr>],
      links = [\<lparr>source = Some 0, target = Some 9, link_value = Some 5, description = ''''\<rparr>]\<rparr>"
  by (simp add: transformData_def parseCSVData_def danglingRows_def exampleHost_simps
      parseIntDecimal_def isWhiteSpace_def isDigit_def Let_def)

lemma dangling_error:
  "d3SankeyError \<lparr>nodes = [\<lparr>node_id = Some 0, node_name = ''A'', node_type = ''theme'', x_position = Some 0\<rparr>],
      links = [\<lparr>source = Some 0, target = Some 9, link_value = Some 5, description = ''''\<rparr>]\<rparr>
   = Some ''missing: 9''"
  by (simp add: d3SankeyError_def link_ends_def is_node_index_def show_number_def show_nat_9)

lemma next_nodes_empty: "(next_nodes ds ^^ n) [] = []"
  by (induction n) (simp_all add: next_nodes_def)

lemma fallback_not_circular: "\<not> circular fallbackData"
proof -
  have len: "length (nodes fallbackData) = Suc (Suc 7)" by (simp add: fallbackData_def)
  have a: "next_nodes fallbackData (map (\<lambda>i. Some (int i)) [0..<Suc (Suc 7)])
           = [Some 4, Some 5, Some 6, Some 7, Some 8]"
    by (simp add: next_nodes_def fallbackData_def upt_rec)
  have b: "next_nodes fallbackData [Some 4, Some 5, Some 6, Some 7, Some 8] = []"
    by (simp add: next_nodes_def fallbackData_def)
  have "(next_nodes fallbackData ^^ Suc (Suc 7)) (map (\<lambda>i. Some (int i)) [0..<Suc (Suc 7)]) = []"
    by (simp only: funpow_Suc_right o_apply a b next_nodes_empty)
  then show ?thesis by (simp only: circular_def len simp_thms)
qed

lemma fallback_no_error: "d3SankeyError fallbackData = None"
proof -
  have "filter (\<lambda>e. \<not> is_node_index (length (nodes fallbackData)) e) (link_ends fallbackData) = []"
    by (simp add: link_ends_def is_node_index_def fallbackData_def)
  with fallback_not_circular show ?thesis by (simp add: d3SankeyError_def)
qed

text \<open>
  Claim C7, as the code has it. A failure on the fetch path is anything that takes
  \<^verbatim>\<open>loadData\<close> into its \<^verbatim>\<open>catch\<close> block: a rejected fetch, the page's own
  \<^verbatim>\<open>throw\<close> on an empty or invalid result, or an exception raised inside the \<^verbatim>\<open>try\<close>
  block while the result is drawn (the layout throws on a link whose end is no node).
  Every such failure is caught, and the message of the error is stored in \<^verbatim>\<open>error\<close>,
  which the template shows. On the aggregate page the fixed fallback dataset, with its 9
  nodes and 14 links, becomes the current data, and it is drawn when the chart container
  is attached; without a container \<^verbatim>\<open>createSankeyDiagram\<close> returns before drawing.
  (The statement also says what happens if the layout were to throw on the fallback
  dataset itself: the exception leaves \<^verbatim>\<open>loadData\<close>, with the container cleared.
  d3-sankey does not, as lemma \<open>fallback_no_error\<close> shows for its two errors.)
\<close>

theorem load_failure_is_caught:
  "(loadData_try h lib response st = Inl (message, st1) \<longrightarrow>
      loadData h lib response st =
        (if chartContainer st then
           (case lib fallbackData of
              None \<Rightarrow> Inr (st1\<lparr>loading := False, error := Some message,
                              currentData := Some fallbackData, drawn := Some fallbackData\<rparr>)
            | Some m \<Rightarrow> Inl (m, st1\<lparr>loading := False, error := Some message,
                                  currentData := Some fallbackData, drawn := None\<rparr>))
         else Inr (st1\<lparr>loading := False, error := Some message,
                       currentData := Some fallbackData\<rparr>)))
   \<and> loadData_try h lib (Rejected message) st
       = Inl (message, st\<lparr>loading := True, error := None\<rparr>)
   \<and> (fst (parseCSVData csvData) = [] \<or> snd (parseCSVData csvData) = [] \<longrightarrow>
        loadData_try h lib (Resolved csvData) st
        = Inl (''Invalid or empty CSV data'', st\<lparr>loading := True, error := None\<rparr>))
   \<and> (fst (parseCSVData csvData) \<noteq> [] \<and> snd (parseCSVData csvData) \<noteq> [] \<and> chartContainer st
        \<and> lib (transformData h (fst (parseCSVData csvData)) (snd (parseCSVData csvData)))
            = Some message \<longrightarrow>
        loadData_try h lib (Resolved csvData) st
        = Inl (message,
               st\<lparr>loading := False, error := None,
                  currentData := Some (transformData h (fst (parseCSVData csvData))
                                         (snd (parseCSVData csvData))),
                  drawn := None\<rparr>))
   \<and> (loadData2_try lib2 response2 st2 = Inl (message, st2') \<longrightarrow>
        loadData2 lib2 response2 st2
        = st2'\<lparr>error := Some message, debugInfo := CSV_failed message, loading := False\<rparr>)
   \<and> loadData2_try lib2 (Rejected message) st2
       = Inl (message, st2\<lparr>loading := True, error := None, debugInfo := Loading_sample_site_data\<rparr>)
   \<and> loadData2_try lib2 (Resolved []) st2
       = Inl (''CSV data was empty'',
              st2\<lparr>loading := True, error := None, debugInfo := CSV_loaded 0\<rparr>)
   \<and> (loadData4_try h lib4 response2 st4 = Inl (message, st4') \<longrightarrow>
        loadData4 h lib4 response2 st4
        = st4'\<lparr>error := Some message, debugInfo := CSV_failed message, loading := False\<rparr>)
   \<and> loadData4_try h lib4 (Rejected message) st4
       = Inl (message, st4\<lparr>loading := True, error := None, debugInfo := Loading_sample_site_data\<rparr>)
   \<and> loadData4_try h lib4 (Resolved []) st4
       = Inl (''CSV data was empty'',
              st4\<lparr>loading := True, error := None, debugInfo := CSV_loaded 0\<rparr>)
   \<and> length (nodes fallbackData) = 9 \<and> length (links fallbackData) = 14"
  apply (intro conjI impI)
  subgoal by (rule loadData_caught)
  subgoal by (rule loadData_try_rejected)
  subgoal by (rule loadData_try_invalid)
  subgoal by (rule loadData_try_layout) simp_all
  subgoal by (rule loadData2_caught)
  subgoal by (rule loadData2_try_cases)
  subgoal by (rule loadData2_try_cases)
  subgoal by (rule loadData4_caught)
  subgoal by (rule loadData4_try_cases)
  subgoal by (rule loadData4_try_cases)
  subgoal by (simp add: fallbackData_def)
  subgoal by (simp add: fallbackData_def)
  done

text \<open>
  A file whose only link ends at a node \<open>9\<close> that is not there: the layout throws
  \<^verbatim>\<open>missing: 9\<close> inside the \<^verbatim>\<open>try\<close> block, the message is recorded and the fallback is
  drawn.
\<close>

theorem load_failure_is_caught_witness:
  "loadData_try exampleHost d3SankeyError (Resolved danglingRows) mounted_page
     = Inl (''missing: 9'',
            \<lparr>loading = False, error = None,
             currentData = Some \<lparr>nodes = [\<lparr>node_id = Some 0, node_name = ''A'', node_type = ''theme'',
                                              x_position = Some 0\<rparr>],
                                  links = [\<lparr>source = Some 0, target = Some 9, link_value = Some 5,
                                              description = ''''\<rparr>]\<rparr>,
             chartContainer = True, drawn = None\<rparr>)
   \<and> loadData exampleHost d3SankeyError (Resolved danglingRows) mounted_page
     = Inr \<lparr>loading = False, error = Some ''missing: 9'', currentData = Some fallbackData,
            chartContainer = True, drawn = Some fallbackData\<rparr>
   \<and> loadData exampleHost d3SankeyError (Resolved []) mounted_page
     = Inr \<lparr>loading = False, error = Some ''Invalid or empty CSV data'',
            currentData = Some fallbackData, chartContainer = True, drawn = Some fallbackData\<rparr>
   \<and> error (loadData2 (\<lambda>d. None) (Rejected ''404 Not Found'')
        \<lparr>loading = True, error = None, currentData = None, chartContainer = True, drawn = None,
         debugInfo = Component_mounted\<rparr>) = Some ''404 Not Found''"
proof -
  have layout: "d3SankeyError (transformData exampleHost (fst (parseCSVData danglingRows))
                  (snd (parseCSVData danglingRows))) = Some ''missing: 9''"
    by (simp only: danglingData dangling_error)
  have rows: "fst (parseCSVData danglingRows) \<noteq> []" "snd (parseCSVData danglingRows) \<noteq> []"
    by (simp_all add: parseCSVData_def danglingRows_def)
  have mounted: "chartContainer mounted_page" by (simp add: mounted_page_def)
  note main = load_failure_is_caught [of exampleHost d3SankeyError "Resolved danglingRows"
      mounted_page "''missing: 9''" _ danglingRows]
  from main rows layout mounted
  have try1: "loadData_try exampleHost d3SankeyError (Resolved danglingRows) mounted_page
     = Inl (''missing: 9'',
            mounted_page\<lparr>loading := False, error := None,
              currentData := Some (transformData exampleHost (fst (parseCSVData danglingRows))
                                     (snd (parseCSVData danglingRows))),
              drawn := None\<rparr>)"
    by blast
  from main try1 mounted
  have load1: "loadData exampleHost d3SankeyError (Resolved danglingRows) mounted_page
     = Inr (mounted_page\<lparr>loading := False, error := None,
              currentData := Some (transformData exampleHost (fst (parseCSVData danglingRows))
                                     (snd (parseCSVData danglingRows))),
              drawn := None\<rparr>
            \<lparr>loading := False, error := Some ''missing: 9'', currentData := Some fallbackData,
             drawn := Some fallbackData\<rparr>)"
    by (simp add: fallback_no_error)
  have load2: "loadData exampleHost d3SankeyError (Resolved []) mounted_page
     = Inr \<lparr>loading = False, error = Some ''Invalid or empty CSV data'',
            currentData = Some fallbackData, chartContainer = True, drawn = Some fallbackData\<rparr>"
    by (simp add: loadData_def loadData_try_def useFallbackData_def createSankeyDiagram_def
        mounted_page_def fallback_no_error)
  have load3: "error (loadData2 (\<lambda>d. None) (Rejected ''404 Not Found'')
        \<lparr>loading = True, error = None, currentData = None, chartContainer = True, drawn = None,
         debugInfo = Component_mounted\<rparr>) = Some ''404 Not Found''"
    by (simp add: loadData2_def loadData2_try_def)
  from try1 load1 load2 load3 show ?thesis
    by (simp add: mounted_page_def danglingData)
qed

text \<open>
  The claim as stated, that the fallback dataset is rendered on every failure, does not
  hold for a page whose container is detached when the fetch is rejected: the fallback
  becomes the current data and nothing is drawn.
\<close>

theorem fallback_not_drawn_without_container:
  "loadData_try exampleHost d3SankeyError (Rejected ''404 Not Found'') unmounted_page
     = Inl (''404 Not Found'', unmounted_page\<lparr>loading := True, error := None\<rparr>)
   \<and> loadData exampleHost d3SankeyError (Rejected ''404 Not Found'') unmounted_page
     = Inr \<lparr>loading = False, error = Some ''404 Not Found'', currentData = Some fallbackData,
            chartContainer = False, drawn = None\<rparr>"
  by (simp add: loadData_def loadData_try_def useFallbackData_def createSankeyDiagram_def
      unmounted_page_def)

text \<open>
  Claim C10. Each of the 14 links of the fallback dataset has a source in \<open>{0,1,2,3}\<close>, a
  target in \<open>{4,...,8}\<close> and a positive value; source and target are ids of nodes of the
  dataset, the nodes \<open>0\<close> to \<open>3\<close> being the themes and \<open>4\<close> to \<open>8\<close> the decades.
\<close>

theorem fallback_links_wellformed:
  "length (links fallbackData) = 14
   \<and> (\<forall>l \<in> set (links fallbackData).
         source l \<in> {Some 0, Some 1, Some 2, Some 3}
       \<and> target l \<in> {Some 4, Some 5, Some 6, Some 7, Some 8}
       \<and> (\<exists>v. link_value l = Some v \<and> 0 < v)
       \<and> source l \<in> node_id ` set (nodes fallbackData)
       \<and> target l \<in> node_id ` set (nodes fallbackData))
   \<and> map node_id (filter (\<lambda>n. node_type n = ''theme'') (nodes fallbackData))
       = [Some 0, Some 1, Some 2, Some 3]
   \<and> map node_id (filter (\<lambda>n. node_type n = ''decade'') (nodes fallbackData))
       = [Some 4, Some 5, Some 6, Some 7, Some 8]"
proof -
  have a: "length (links fallbackData) = 14" by (simp add: fallbackData_def)
  have b: "\<forall>l \<in> set (links fallbackData).
         source l \<in> {Some 0, Some 1, Some 2, Some 3}
       \<and> target l \<in> {Some 4, Some 5, Some 6, Some 7, Some 8}
       \<and> (\<exists>v. link_value l = Some v \<and> 0 < v)
       \<and> source l \<in> node_id ` set (nodes fallbackData)
       \<and> target l \<in> node_id ` set (nodes fallbackData)"
    by (simp add: fallbackData_def)
  have c: "map node_id (filter (\<lambda>n. node_type n = ''theme'') (nodes fallbackData))
       = [Some 0, Some 1, Some 2, Some 3]"
    by (simp add: fallbackData_def)
  have d: "map node_id (filter (\<lambda>n. node_type n = ''decade'') (nodes fallbackData))
       = [Some 4, Some 5, Some 6, Some 7, Some 8]"
    by (simp add: fallbackData_def)
  from a b c d show ?thesis by blast
qed

theorem fallback_links_wellformed_witness:
  "links fallbackData ! 13
     = \<lparr>source = Some 3, target = Some 8, link_value = Some 20, description = ''Economic Crisis to 1940s''\<rparr>
   \<and> links fallbackData ! 13 \<in> set (links fallbackData)
   \<and> source (links fallbackData ! 13) \<in> node_id ` set (nodes fallbackData)
   \<and> target (links fallbackData ! 13) \<in> node_id ` set (nodes fallbackData)"
  using fallback_links_wellformed
  by (simp add: fallbackData_def)

section \<open>What a hover changes\<close>

lemmas style_defs = style_all_def style_filter_def style_filter_indexed_def opacity_def
  stroke_width_def stroke_def

lemma highlightThemeFlows2_links:
  "sel_links (highlightThemeFlows2 n w sc) =
     map (\<lambda>e. if lk_source_index (datum e) = n
               then e\<lparr>style_opacity := Some 0.9,
                      style_stroke_width := Some (max 3 (lk_width (datum e) + 1))\<rparr>
               else e\<lparr>style_opacity := Some 0.1\<rparr>) (sel_links sc)"
  by (simp add: highlightThemeFlows2_def style_defs Let_def comp_def)

lemma highlightThemeFlows2_nodes:
  "sel_nodes (highlightThemeFlows2 n w sc) =
     map (\<lambda>e. if w / 2 \<le> nd_x0 (datum e) then e\<lparr>style_opacity := Some 0.7\<rparr>
               else if nd_index (datum e) \<noteq> n then e\<lparr>style_opacity := Some 0.3\<rparr>
               else e) (sel_nodes sc)"
  by (simp add: highlightThemeFlows2_def style_defs Let_def comp_def not_less)

lemma highlightThemeFlows2_labels:
  "filter (\<lambda>e. w / 2 \<le> nd_x0 (datum e)) (sel_labels (highlightThemeFlows2 n w sc))
     = filter (\<lambda>e. w / 2 \<le> nd_x0 (datum e)) (sel_labels sc)"
  by (simp add: highlightThemeFlows2_def style_defs Let_def prop_x_def)

lemma highlightThemeFlows0_links:
  "sel_links (highlightThemeFlows0 n result w sc) =
     map (\<lambda>e. if lk_source_index (datum e) = n
               then e\<lparr>style_opacity := Some 0.9,
                      style_stroke_width := Some (max 3 (lk_width (datum e) + 1))\<rparr>
               else e\<lparr>style_opacity := Some 0.1\<rparr>) (sel_links sc)"
  by (simp add: highlightThemeFlows0_def style_defs Let_def comp_def)

lemma highlightThemeFlows0_nodes:
  "sel_nodes (highlightThemeFlows0 n result w sc) =
     map (\<lambda>e. if w / 2 \<le> nd_x0 (datum e) then e\<lparr>style_opacity := Some 0.7\<rparr>
               else if nd_index (datum e) \<noteq> n then e\<lparr>style_opacity := Some 0.3\<rparr>
               else e) (sel_nodes sc)"
  by (simp add: highlightThemeFlows0_def style_defs Let_def comp_def not_less)

lemma highlightThemeFlows0_labels:
  "filter (\<lambda>e. w / 2 \<le> nd_x0 (datum e)) (sel_labels (highlightThemeFlows0 n result w sc))
     = filter (\<lambda>e. w / 2 \<le> nd_x0 (datum e)) (sel_labels sc)"
  by (simp add: highlightThemeFlows0_def style_defs Let_def prop_x_def)

lemma highlightThemeFlows4_links:
  "links4 (highlightThemeFlows4 n w sc) =
     map (\<lambda>e. if lk_source_index (datum e) = n
               then e\<lparr>style_opacity := Some 0.9,
                      style_stroke := Some (COLORS_custom ! (n mod 6))\<rparr>
               else e\<lparr>style_opacity := Some 0.1\<rparr>) (links4 sc)"
  by (simp add: highlightThemeFlows4_def style_defs Let_def comp_def backgroundOpacity_def
      nodeOpacityHighlight_def COLORS_custom_def)

lemma highlightThemeFlows4_nodes:
  "nodes4 (highlightThemeFlows4 n w sc) =
     map (\<lambda>e. if w / 2 \<le> nd_x0 (datum e) \<or> nd_index (datum e) \<noteq> n
               then e\<lparr>style_opacity := Some 0.1\<rparr> else e) (nodes4 sc)"
  by (simp add: highlightThemeFlows4_def style_defs Let_def comp_def backgroundOpacity_def not_less)

lemma highlightThemeFlows4_labels:
  "themeLabels (highlightThemeFlows4 n w sc) =
     map (\<lambda>e. if nd_index (datum e) \<noteq> n then e\<lparr>style_opacity := Some 0.1\<rparr> else e) (themeLabels sc)
   \<and> yearLabels (highlightThemeFlows4 n w sc) = yearLabels sc
   \<and> titleLabels (highlightThemeFlows4 n w sc) = titleLabels sc"
  by (simp add: highlightThemeFlows4_def style_defs Let_def backgroundOpacity_def)

lemmas scene_eval = style_defs new_element_def shown_opacity_def shown_stroke_width_def
  exampleLayout_def Let_def

text \<open>
  The pointer events change styles only, never the data bound to the elements, so on the
  single-theme page and on the aggregate page a reset after any sequence of events shows
  every element as it was drawn.
\<close>

lemma datum_style_all: "(\<And>e. datum (f e) = datum e) \<Longrightarrow> map datum (style_all f sel) = map datum sel"
  by (simp add: style_all_def)

lemma datum_style_filter:
  "(\<And>e. datum (f e) = datum e) \<Longrightarrow> map datum (style_filter p f sel) = map datum sel"
  by (simp add: style_filter_def)

lemma datum_style_filter_indexed:
  assumes "\<And>e. datum (f e) = datum e"
  shows "map datum (style_filter_indexed p f sel) = map datum sel"
proof -
  have "map datum (style_filter_indexed p f sel) = map (datum \<circ> snd) (enumerate 0 sel)"
    unfolding style_filter_indexed_def map_map
    by (rule map_cong) (auto simp: assms)
  also have "\<dots> = map datum (map snd (enumerate 0 sel))" by (simp only: map_map)
  finally show ?thesis by (simp only: map_snd_enumerate)
qed

lemma datum_setters:
  "datum (opacity v e) = datum e"
  "datum (stroke_width g e) = datum e"
  "datum (stroke c e) = datum e"
  "datum ((stroke_width g \<circ> opacity v) e) = datum e"
  "datum ((stroke c \<circ> opacity v) e) = datum e"
  by (simp_all add: opacity_def stroke_width_def stroke_def)

lemma hover2_data:
  "map datum (sel_links (hover2 w sc ev)) = map datum (sel_links sc)
   \<and> map datum (sel_nodes (hover2 w sc ev)) = map datum (sel_nodes sc)
   \<and> map datum (sel_labels (hover2 w sc ev)) = map datum (sel_labels sc)"
  by (cases ev)
     (simp_all add: highlightThemeFlows2_def highlightYearFlows2_def resetHighlighting2_def Let_def
        datum_style_all datum_style_filter datum_setters)

lemma hovers2_data:
  "map datum (sel_links (foldl (hover2 w) sc evs)) = map datum (sel_links sc)
   \<and> map datum (sel_nodes (foldl (hover2 w) sc evs)) = map datum (sel_nodes sc)
   \<and> map datum (sel_labels (foldl (hover2 w) sc evs)) = map datum (sel_labels sc)"
  by (induction evs arbitrary: sc) (simp_all add: hover2_data)

lemma reset2_shown:
  "map shown_opacity (sel_links (resetHighlighting2 sc)) = map (\<lambda>d. 0.7) (map datum (sel_links sc))"
  "map shown_stroke_width (sel_links (resetHighlighting2 sc))
     = map (\<lambda>d. Some (max 2 (lk_width d))) (map datum (sel_links sc))"
  "map shown_opacity (sel_nodes (resetHighlighting2 sc)) = map (\<lambda>d. 1) (map datum (sel_nodes sc))"
  "map shown_opacity (sel_labels (resetHighlighting2 sc)) = map (\<lambda>d. 1) (map datum (sel_labels sc))"
  by (simp_all add: resetHighlighting2_def style_defs shown_opacity_def shown_stroke_width_def comp_def)

lemma created2_shown:
  "map shown_opacity (sel_links (createChartElements2 result)) = map (\<lambda>d. 0.7) (res_links result)"
  "map shown_stroke_width (sel_links (createChartElements2 result))
     = map (\<lambda>d. Some (max 2 (lk_width d))) (res_links result)"
  "map shown_opacity (sel_nodes (createChartElements2 result)) = map (\<lambda>d. 1) (res_nodes result)"
  "map shown_opacity (sel_labels (createChartElements2 result)) = map (\<lambda>d. 1) (res_nodes result)"
  "map datum (sel_links (createChartElements2 result)) = res_links result"
  "map datum (sel_nodes (createChartElements2 result)) = res_nodes result"
  "map datum (sel_labels (createChartElements2 result)) = res_nodes result"
  by (simp_all add: createChartElements2_def new_element_def shown_opacity_def
      shown_stroke_width_def comp_def)

lemma reset2_restores_baseline:
  "map shown_opacity (sel_links (resetHighlighting2 (foldl (hover2 w) (createChartElements2 result) evs)))
     = map shown_opacity (sel_links (createChartElements2 result))
   \<and> map shown_stroke_width
       (sel_links (resetHighlighting2 (foldl (hover2 w) (createChartElements2 result) evs)))
     = map shown_stroke_width (sel_links (createChartElements2 result))
   \<and> map shown_opacity (sel_nodes (resetHighlighting2 (foldl (hover2 w) (createChartElements2 result) evs)))
     = map shown_opacity (sel_nodes (createChartElements2 result))
   \<and> map shown_opacity (sel_labels (resetHighlighting2 (foldl (hover2 w) (createChartElements2 result) evs)))
     = map shown_opacity (sel_labels (createChartElements2 result))"
  by (simp only: reset2_shown hovers2_data created2_shown simp_thms)

lemma hover0_data:
  "map datum (sel_links (hover0 result w sc ev)) = map datum (sel_links sc)
   \<and> map datum (sel_nodes (hover0 result w sc ev)) = map datum (sel_nodes sc)
   \<and> map datum (sel_labels (hover0 result w sc ev)) = map datum (sel_labels sc)
   \<and> map datum (sel_flowLabels (hover0 result w sc ev)) = map datum (sel_flowLabels sc)"
  by (cases ev)
     (simp_all add: highlightThemeFlows0_def highlightDecadeFlows0_def resetHighlighting0_def Let_def
        datum_style_all datum_style_filter datum_style_filter_indexed datum_setters)

lemma hovers0_data:
  "map datum (sel_links (foldl (hover0 result w) sc evs)) = map datum (sel_links sc)
   \<and> map datum (sel_nodes (foldl (hover0 result w) sc evs)) = map datum (sel_nodes sc)
   \<and> map datum (sel_labels (foldl (hover0 result w) sc evs)) = map datum (sel_labels sc)
   \<and> map datum (sel_flowLabels (foldl (hover0 result w) sc evs)) = map datum (sel_flowLabels sc)"
  by (induction evs arbitrary: sc) (simp_all add: hover0_data)

lemma reset0_shown:
  "map shown_opacity (sel_links (resetHighlighting0 sc)) = map (\<lambda>d. 0.7) (map datum (sel_links sc))"
  "map shown_stroke_width (sel_links (resetHighlighting0 sc))
     = map (\<lambda>d. Some (max 2 (lk_width d))) (map datum (sel_links sc))"
  "map shown_opacity (sel_nodes (resetHighlighting0 sc)) = map (\<lambda>d. 1) (map datum (sel_nodes sc))"
  "map shown_opacity (sel_labels (resetHighlighting0 sc)) = map (\<lambda>d. 1) (map datum (sel_labels sc))"
  "map shown_opacity (sel_flowLabels (resetHighlighting0 sc)) = map (\<lambda>d. 1) (map datum (sel_flowLabels sc))"
  by (simp_all add: resetHighlighting0_def style_defs shown_opacity_def shown_stroke_width_def comp_def)

lemma created0_shown:
  "map shown_opacity (sel_links (createChartElements0 result)) = map (\<lambda>d. 0.7) (res_links result)"
  "map shown_stroke_width (sel_links (createChartElements0 result))
     = map (\<lambda>d. Some (max 2 (lk_width d))) (res_links result)"
  "map shown_opacity (sel_nodes (createChartElements0 result)) = map (\<lambda>d. 1) (res_nodes result)"
  "map shown_opacity (sel_labels (createChartElements0 result)) = map (\<lambda>d. 1) (res_nodes result)"
  "map shown_opacity (sel_flowLabels (createChartElements0 result)) = map (\<lambda>d. 1) (res_links result)"
  "map datum (sel_links (createChartElements0 result)) = res_links result"
  "map datum (sel_nodes (createChartElements0 result)) = res_nodes result"
  "map datum (sel_labels (createChartElements0 result)) = res_nodes result"
  "map datum (sel_flowLabels (createChartElements0 result)) = res_links result"
  by (simp_all add: createChartElements0_def new_element_def shown_opacity_def
      shown_stroke_width_def comp_def)

lemma reset0_restores_baseline:
  "map shown_opacity
       (sel_links (resetHighlighting0 (foldl (hover0 result w) (createChartElements0 result) evs)))
     = map shown_opacity (sel_links (createChartElements0 result))
   \<and> map shown_stroke_width
       (sel_links (resetHighlighting0 (foldl (hover0 result w) (createChartElements0 result) evs)))
     = map shown_stroke_width (sel_links (createChartElements0 result))
   \<and> map shown_opacity
       (sel_nodes (resetHighlighting0 (foldl (hover0 result w) (createChartElements0 result) evs)))
     = map shown_opacity (sel_nodes (createChartElements0 result))
   \<and> map shown_opacity
       (sel_labels (resetHighlighting0 (foldl (hover0 result w) (createChartElements0 result) evs)))
     = map shown_opacity (sel_labels (createChartElements0 result))
   \<and> map shown_opacity
       (sel_flowLabels (resetHighlighting0 (foldl (hover0 result w) (createChartElements0 result) evs)))
     = map shown_opacity (sel_flowLabels (createChartElements0 result))"
  by (simp only: reset0_shown hovers0_data created0_shown simp_thms)

text \<open>
  On the multi-theme page the reset gives every element a fixed opacity too, but for the
  nodes it is not the one they are drawn with.
\<close>

lemma reset4_shown:
  "map shown_opacity (links4 (resetHighlighting4 sc)) = map (\<lambda>d. 0.5) (map datum (links4 sc))"
  "map shown_opacity (nodes4 (resetHighlighting4 sc)) = map (\<lambda>d. 0.5) (map datum (nodes4 sc))"
  "map shown_opacity (themeLabels (resetHighlighting4 sc)) = map (\<lambda>d. 1) (map datum (themeLabels sc))"
  "map shown_opacity (yearLabels (resetHighlighting4 sc)) = map (\<lambda>d. 1) (map datum (yearLabels sc))"
  "map shown_opacity (titleLabels (resetHighlighting4 sc)) = map (\<lambda>d. 1) (map datum (titleLabels sc))"
  by (simp_all add: resetHighlighting4_def style_defs shown_opacity_def defaultOpacity_def comp_def)

lemma created4_shown:
  "map shown_opacity (links4 (createChartElements4 result w)) = map (\<lambda>d. 0.5) (res_links result)"
  "map shown_opacity (nodes4 (createChartElements4 result w)) = map (\<lambda>d. 1) (res_nodes result)"
  by (simp_all add: createChartElements4_def new_element_def shown_opacity_def defaultOpacity_def
      comp_def)

section \<open>Claims about the highlight state machine\<close>

text \<open>
  Claim C5 says that the reset gives every link, node and label the opacity and stroke
  width it had before any hover. The single-theme and the aggregate page do so (lemmas
  \<open>reset2_restores_baseline\<close> and \<open>reset0_restores_baseline\<close>). On the multi-theme page the
  nodes are drawn with no opacity of their own, so fully opaque, and after the first
  pointer-enter and pointer-leave every node is at \<^verbatim>\<open>defaultOpacity\<close>, \<open>0.5\<close>: here on a
  layout of two themes and one event, hovering theme \<open>0\<close>.
\<close>

theorem reset4_dims_the_nodes:
  "map shown_opacity (nodes4 (createChartElements4 exampleLayout 300)) = [1, 1, 1]
   \<and> map shown_opacity
       (nodes4 (hover4 300 (hover4 300 (createChartElements4 exampleLayout 300)
                               (PointerEnter \<lparr>nd_index = 0, nd_x0 = 0\<rparr>)) PointerLeave))
     = [0.5, 0.5, 0.5]"
  by (simp add: resetHighlighting4_def highlightThemeFlows4_def createChartElements4_def
      scene_eval backgroundOpacity_def nodeOpacityHighlight_def defaultOpacity_def
      COLORS_custom_def COLORS_border_def)

text \<open>
  Claim C6, as the code has it. Entering the focus of theme node \<open>n\<close> gives the links whose
  source is \<open>n\<close> the opacity \<open>0.9\<close> and every other link \<open>0.1\<close>. On the single-theme and the
  aggregate page the links of \<open>n\<close> also get the stroke width \<open>max(3, width + 1)\<close>, every
  node on the right gets \<open>0.7\<close> and every other theme node \<open>0.3\<close>. On the multi-theme page
  the stroke width stays as drawn, and every node on the right, every other theme node and
  every other theme label get \<open>0.1\<close>. The labels of the nodes on the right are left as
  they are on all three pages.
\<close>

theorem theme_focus_effect:
  "sel_links (highlightThemeFlows2 n w sc) =
     map (\<lambda>e. if lk_source_index (datum e) = n
               then e\<lparr>style_opacity := Some 0.9,
                      style_stroke_width := Some (max 3 (lk_width (datum e) + 1))\<rparr>
               else e\<lparr>style_opacity := Some 0.1\<rparr>) (sel_links sc)
   \<and> sel_nodes (highlightThemeFlows2 n w sc) =
     map (\<lambda>e. if w / 2 \<le> nd_x0 (datum e) then e\<lparr>style_opacity := Some 0.7\<rparr>
               else if nd_index (datum e) \<noteq> n then e\<lparr>style_opacity := Some 0.3\<rparr>
               else e) (sel_nodes sc)
   \<and> filter (\<lambda>e. w / 2 \<le> nd_x0 (datum e)) (sel_labels (highlightThemeFlows2 n w sc))
     = filter (\<lambda>e. w / 2 \<le> nd_x0 (datum e)) (sel_labels sc)
   \<and> sel_links (highlightThemeFlows0 n result w sc0) =
     map (\<lambda>e. if lk_source_index (datum e) = n
               then e\<lparr>style_opacity := Some 0.9,
                      style_stroke_width := Some (max 3 (lk_width (datum e) + 1))\<rparr>
               else e\<lparr>style_opacity := Some 0.1\<rparr>) (sel_links sc0)
   \<and> sel_nodes (highlightThemeFlows0 n result w sc0) =
     map (\<lambda>e. if w / 2 \<le> nd_x0 (datum e) then e\<lparr>style_opacity := Some 0.7\<rparr>
               else if nd_index (datum e) \<noteq> n then e\<lparr>style_opacity := Some 0.3\<rparr>
               else e) (sel_nodes sc0)
   \<and> filter (\<lambda>e. w / 2 \<le> nd_x0 (datum e)) (sel_labels (highlightThemeFlows0 n result w sc0))
     = filter (\<lambda>e. w / 2 \<le> nd_x0 (datum e)) (sel_labels sc0)
   \<and> links4 (highlightThemeFlows4 n w sc4) =
     map (\<lambda>e. if lk_source_index (datum e) = n
               then e\<lparr>style_opacity := Some 0.9,
                      style_stroke := Some (COLORS_custom ! (n mod 6))\<rparr>
               else e\<lparr>style_opacity := Some 0.1\<rparr>) (links4 sc4)
   \<and> nodes4 (highlightThemeFlows4 n w sc4) =
     map (\<lambda>e. if w / 2 \<le> nd_x0 (datum e) \<or> nd_index (datum e) \<noteq> n
               then e\<lparr>style_opacity := Some 0.1\<rparr> else e) (nodes4 sc4)
   \<and> themeLabels (highlightThemeFlows4 n w sc4) =
     map (\<lambda>e. if nd_index (datum e) \<noteq> n then e\<lparr>style_opacity := Some 0.1\<rparr> else e)
       (themeLabels sc4)
   \<and> yearLabels (highlightThemeFlows4 n w sc4) = yearLabels sc4
   \<and> titleLabels (highlightThemeFlows4 n w sc4) = titleLabels sc4"
  using highlightThemeFlows2_links [of n w sc] highlightThemeFlows2_nodes [of n w sc]
    highlightThemeFlows2_labels [of w n sc]
    highlightThemeFlows0_links [of n result w sc0] highlightThemeFlows0_nodes [of n result w sc0]
    highlightThemeFlows0_labels [of w n result sc0]
    highlightThemeFlows4_links [of n w sc4] highlightThemeFlows4_nodes [of n w sc4]
    highlightThemeFlows4_labels [of n w sc4]
  by blast

theorem theme_focus_effect_witness:
  "map shown_opacity (sel_links (highlightThemeFlows2 0 300 (createChartElements2 exampleLayout)))
     = [0.9, 0.1]
   \<and> map shown_stroke_width
       (sel_links (highlightThemeFlows2 0 300 (createChartElements2 exampleLayout)))
     = [Some 11, Some 10]
   \<and> map shown_opacity (sel_nodes (highlightThemeFlows2 0 300 (createChartElements2 exampleLayout)))
     = [1, 0.3, 0.7]
   \<and> map shown_opacity (nodes4 (highlightThemeFlows4 0 300 (createChartElements4 exampleLayout 300)))
     = [1, 0.1, 0.1]
   \<and> map shown_opacity
       (themeLabels (highlightThemeFlows4 0 300 (createChartElements4 exampleLayout 300)))
     = [1, 0.1]"
  using theme_focus_effect [of 0 300 "createChartElements2 exampleLayout" exampleLayout
      "createChartElements0 exampleLayout" "createChartElements4 exampleLayout 300"]
  by (simp add: createChartElements2_def createChartElements4_def scene_eval)

text \<open>
  The claim as stated fails on the multi-theme page: the node on the right gets the same
  opacity as the links that are not emphasised (no middle value), the emphasised link keeps
  its stroke width, and the label of the node on the right stays at \<open>1\<close>; on the
  single-theme page, too, the label of the node on the right stays at \<open>1\<close>.
\<close>

theorem theme_focus_not_as_claimed:
  "shown_opacity (nodes4 (highlightThemeFlows4 0 300 (createChartElements4 exampleLayout 300)) ! 2)
     = shown_opacity (links4 (highlightThemeFlows4 0 300 (createChartElements4 exampleLayout 300)) ! 1)
   \<and> shown_stroke_width
       (links4 (highlightThemeFlows4 0 300 (createChartElements4 exampleLayout 300)) ! 0)
     = shown_stroke_width (links4 (createChartElements4 exampleLayout 300) ! 0)
   \<and> shown_opacity
       (yearLabels (highlightThemeFlows4 0 300 (createChartElements4 exampleLayout 300)) ! 0) = 1
   \<and> map shown_opacity (links4 (highlightThemeFlows4 0 300 (createChartElements4 exampleLayout 300)))
     = [0.9, 0.1]
   \<and> map shown_opacity (nodes4 (highlightThemeFlows4 0 300 (createChartElements4 exampleLayout 300)))
     = [1, 0.1, 0.1]
   \<and> shown_opacity
       (sel_labels (highlightThemeFlows2 0 300 (createChartElements2 exampleLayout)) ! 2) = 1"
  by (simp add: highlightThemeFlows4_def highlightThemeFlows2_def createChartElements2_def
      createChartElements4_def scene_eval backgroundOpacity_def nodeOpacityHighlight_def
      defaultOpacity_def COLORS_custom_def COLORS_border_def prop_x_def)

section \<open>Calling the transformer twice\<close>

text \<open>
  A call of the multi-theme transformer, in closed form: the returned dataset is the
  one of the function on the arrays the references point to, and the heap grows by the
  sorted copy and by the lines written to the console.
\<close>

lemma transformCSVToSankey4_call_eq:
  assumes "csvData < length (rowArrays hp)" and "themes < length (stringArrays hp)"
  shows "transformCSVToSankey4_call h csvData themes hp =
           Some (fst (transformCSVToSankey4 h (rowArrays hp ! csvData) (stringArrays hp ! themes)),
                 hp\<lparr>rowArrays := rowArrays hp @ [sortRows h (rowArrays hp ! csvData)],
                    consoleOutput := consoleOutput hp
                      @ snd (transformCSVToSankey4 h (rowArrays hp ! csvData) (stringArrays hp ! themes))\<rparr>)"
  using assms
  by (simp add: transformCSVToSankey4_call_def transformCSVToSankey4_def spread_rows_def
      sort_rows_in_place_def sortRows_def Let_def nth_append split: prod.splits)

text \<open>
  The sort does overwrite the array it is applied to: sorting the caller's array itself,
  and not a copy, would change it.
\<close>

lemma sort_rows_in_place_overwrites:
  "rowArrays exampleHeap ! 0 = [rowB1, rowB2]
   \<and> rowArrays (sort_rows_in_place exampleHost 0 exampleHeap) ! 0 = [rowB2, rowB1]"
  using sortRows_rowsB
  by (simp add: sort_rows_in_place_def exampleHeap_def sortRows_def rowsB_def)

text \<open>
  Claim C8. The transformer is called twice with the same references, the second call
  on the heap the first call left behind (which holds one more array, the sorted copy,
  and more console output). Both calls return, and they return the same dataset, so the
  same nodes with the same ids and names in the same order and the same links in the
  same order. The first call leaves every array of the caller as it was: the
  multi-theme transformer sorts a copy, \<^verbatim>\<open>[...csvData].sort(...)\<close>, and only adds that
  copy to the heap; the single-theme transformer only reads its arrays
  (\<^verbatim>\<open>map\<close>, \<^verbatim>\<open>indexOf\<close>, \<^verbatim>\<open>length\<close>) and leaves the whole heap as it was. The order the
  host's sort gives for a comparison that is not consistent is a function of the
  comparison and the array, as in an engine.
\<close>

theorem transformer_repeatable:
  assumes "csvData < length (rowArrays hp)" and "themes < length (stringArrays hp)"
      and "years < length (stringArrays hp)"
  shows "(\<exists>d hp1 hp2.
           transformCSVToSankey4_call h csvData themes hp = Some (d, hp1)
         \<and> transformCSVToSankey4_call h csvData themes hp1 = Some (d, hp2)
         \<and> d = fst (transformCSVToSankey4 h (rowArrays hp ! csvData) (stringArrays hp ! themes))
         \<and> rowArrays hp1 ! csvData = rowArrays hp ! csvData
         \<and> take (length (rowArrays hp)) (rowArrays hp1) = rowArrays hp
         \<and> stringArrays hp1 = stringArrays hp)
       \<and> (\<exists>d. transformCSVToSankey2_call csvData themes years hp = Some (d, hp)
         \<and> d = transformCSVToSankey2 (rowArrays hp ! csvData) (stringArrays hp ! themes)
                 (stringArrays hp ! years))"
proof -
  let ?hp1 = "hp\<lparr>rowArrays := rowArrays hp @ [sortRows h (rowArrays hp ! csvData)],
                 consoleOutput := consoleOutput hp
                   @ snd (transformCSVToSankey4 h (rowArrays hp ! csvData) (stringArrays hp ! themes))\<rparr>"
  have first: "transformCSVToSankey4_call h csvData themes hp =
      Some (fst (transformCSVToSankey4 h (rowArrays hp ! csvData) (stringArrays hp ! themes)), ?hp1)"
    by (rule transformCSVToSankey4_call_eq [OF assms(1,2)])
  have c1: "csvData < length (rowArrays ?hp1)" and t1: "themes < length (stringArrays ?hp1)"
    using assms by simp_all
  have same: "rowArrays ?hp1 ! csvData = rowArrays hp ! csvData" "stringArrays ?hp1 = stringArrays hp"
    using assms by (simp_all add: nth_append)
  from transformCSVToSankey4_call_eq [OF c1 t1, of h]
  have second: "\<exists>hp2. transformCSVToSankey4_call h csvData themes ?hp1 =
      Some (fst (transformCSVToSankey4 h (rowArrays hp ! csvData) (stringArrays hp ! themes)), hp2)"
    by (simp only: same) blast
  from second obtain hp2 where second': "transformCSVToSankey4_call h csvData themes ?hp1 =
      Some (fst (transformCSVToSankey4 h (rowArrays hp ! csvData) (stringArrays hp ! themes)), hp2)"
    by blast
  have frame: "take (length (rowArrays hp)) (rowArrays ?hp1) = rowArrays hp" by simp
  from first second' same frame have multi: "\<exists>d hp1 hp2.
           transformCSVToSankey4_call h csvData themes hp = Some (d, hp1)
         \<and> transformCSVToSankey4_call h csvData themes hp1 = Some (d, hp2)
         \<and> d = fst (transformCSVToSankey4 h (rowArrays hp ! csvData) (stringArrays hp ! themes))
         \<and> rowArrays hp1 ! csvData = rowArrays hp ! csvData
         \<and> take (length (rowArrays hp)) (rowArrays hp1) = rowArrays hp
         \<and> stringArrays hp1 = stringArrays hp"
    by blast
  have single: "\<exists>d. transformCSVToSankey2_call csvData themes years hp = Some (d, hp)
         \<and> d = transformCSVToSankey2 (rowArrays hp ! csvData) (stringArrays hp ! themes)
                 (stringArrays hp ! years)"
    using assms by (simp add: transformCSVToSankey2_call_def)
  from multi single show ?thesis by (rule conjI)
qed

text \<open>
  The two example files in one heap. The rows of the multi-theme file are not in the
  order of their years, so the first call does sort; the caller's array still holds them
  in file order afterwards, and the second call gives the same four nodes.
\<close>

theorem transformer_repeatable_witness:
  "rowArrays exampleHeap ! 0 = [rowB1, rowB2]
   \<and> stringArrays exampleHeap = [[''War'', ''Trade''], [''Colonialism''], [''1900s'', ''1910s'']]
   \<and> (\<exists>d hp1 hp2.
         transformCSVToSankey4_call exampleHost 0 0 exampleHeap = Some (d, hp1)
       \<and> transformCSVToSankey4_call exampleHost 0 0 hp1 = Some (d, hp2)
       \<and> map node_name (nodes d) = [''War'', ''Trade'', ''1900 - a'', ''1910 - b'']
       \<and> rowArrays hp1 = [[rowB1, rowB2], rowsA, [rowB2, rowB1]]
       \<and> stringArrays hp1 = stringArrays exampleHeap)
   \<and> (\<exists>d. transformCSVToSankey2_call 1 1 2 exampleHeap = Some (d, exampleHeap)
       \<and> d = transformCSVToSankey2 rowsA [''Colonialism''] [''1900s'', ''1910s''])"
proof -
  have refs: "0 < length (rowArrays exampleHeap)" "0 < length (stringArrays exampleHeap)"
    "2 < length (stringArrays exampleHeap)" "1 < length (rowArrays exampleHeap)"
    "1 < length (stringArrays exampleHeap)"
    by (simp_all add: exampleHeap_def)
  have arrays: "rowArrays exampleHeap = [rowsB, rowsA]"
    "stringArrays exampleHeap = [[''War'', ''Trade''], [''Colonialism''], [''1900s'', ''1910s'']]"
    by (simp_all add: exampleHeap_def)
  from transformer_repeatable [OF refs(1,2,3), of exampleHost]
  obtain d hp1 hp2 where
    first: "transformCSVToSankey4_call exampleHost 0 0 exampleHeap = Some (d, hp1)" and
    second: "transformCSVToSankey4_call exampleHost 0 0 hp1 = Some (d, hp2)" and
    d: "d = fst (transformCSVToSankey4 exampleHost (rowArrays exampleHeap ! 0) (stringArrays exampleHeap ! 0))" and
    strings: "stringArrays hp1 = stringArrays exampleHeap"
    by blast
  have names: "map node_name (nodes d) = [''War'', ''Trade'', ''1900 - a'', ''1910 - b'']"
    unfolding d arrays by (simp add: eval4)
  from first transformCSVToSankey4_call_eq [OF refs(1,2), of exampleHost]
  have "rowArrays hp1 = rowArrays exampleHeap @ [sortRows exampleHost (rowArrays exampleHeap ! 0)]"
    by auto
  then have rows: "rowArrays hp1 = [[rowB1, rowB2], rowsA, [rowB2, rowB1]]"
    using sortRows_rowsB by (simp add: arrays rowsB_def)
  from transformer_repeatable [OF refs(4,5,3), of exampleHost]
  have single: "\<exists>d. transformCSVToSankey2_call 1 1 2 exampleHeap = Some (d, exampleHeap)
       \<and> d = transformCSVToSankey2 rowsA [''Colonialism''] [''1900s'', ''1910s'']"
    by (simp add: arrays)
  have caller: "rowArrays exampleHeap ! 0 = [rowB1, rowB2]" by (simp add: arrays rowsB_def)
  from first second names rows strings
  have multi: "\<exists>d hp1 hp2.
         transformCSVToSankey4_call exampleHost 0 0 exampleHeap = Some (d, hp1)
       \<and> transformCSVToSankey4_call exampleHost 0 0 hp1 = Some (d, hp2)
       \<and> map node_name (nodes d) = [''War'', ''Trade'', ''1900 - a'', ''1910 - b'']
       \<and> rowArrays hp1 = [[rowB1, rowB2], rowsA, [rowB2, rowB1]]
       \<and> stringArrays hp1 = stringArrays exampleHeap"
    by (intro exI conjI)
  from caller arrays(2) multi single show ?thesis by (intro conjI)
qed

end
